theory Spec2Isabelle
  imports Complex_Main
begin

section \<open>Data model\<close>

text \<open>
  The play designer keeps a play (the artifact) as a list of players (the tokens), each
  with a position and a route (the path). A JavaScript number is modelled as a real
  number, a timestamp as an integer, \<open>string | null\<close> as a \<open>string option\<close>. The
  fields \<open>x\<close>, \<open>y\<close>, \<open>id\<close> and \<open>notes\<close> carry a prefix, since a record field is a
  constant of the theory and \<open>notes\<close> is a keyword.
\<close>

text \<open>
  Modelled from the spec: the type \<open>Point\<close> of \<open>types.ts\<close>, which is not among the
  sources; a point \<open>(x, y)\<close> of the surface, as the object literals \<open>{ x, y }\<close> of the
  sources build it.
\<close>

record Point =
  pt_x :: real
  pt_y :: real

text \<open>
  Modelled from the spec: the enumeration \<open>PlayerRole\<close> of \<open>types.ts\<close>, the kind of a
  token; the sources use its members \<open>OFFENSE\<close> (kind A, may have a path) and
  \<open>DEFENSE\<close> (kind B).
\<close>

datatype PlayerRole = OFFENSE | DEFENSE

text \<open>
  Modelled from the spec: the type \<open>Player\<close> of \<open>types.ts\<close>, the token with its id,
  kind, position, path, colour and label, under the field names of the object literals
  in \<open>services/storage.ts\<close>.
\<close>

record Player =
  p_id :: string
  label :: string
  role :: PlayerRole
  p_x :: real
  p_y :: real
  color :: string
  route :: "Point list"

text \<open>
  Modelled from the spec: the type \<open>Play\<close> of \<open>types.ts\<close>, the artifact that owns the
  tokens, under the field names of the object literals in \<open>services/storage.ts\<close>.
\<close>

record Play =
  play_id :: string
  name :: string
  formation :: string
  tags :: "string list"
  play_notes :: string
  createdAt :: int
  updatedAt :: int
  players :: "Player list"

definition FIELD_WIDTH :: real where
  "FIELD_WIDTH = 100"

definition FIELD_HEIGHT :: real where
  "FIELD_HEIGHT = 80"

text \<open>
  JavaScript truthiness of a value of type \<open>string | null\<close>, as tested by
  \<open>if (selectedPlayerId)\<close> and \<open>if (!stored)\<close>: \<open>null\<close> and the empty string are falsy.
\<close>

fun truthy :: "string option \<Rightarrow> bool" where
  "truthy None = False"
| "truthy (Some s) = (s \<noteq> [])"

section \<open>The editor: updates of the current play\<close>

text \<open>
  \<open>App.handleUpdatePlayer\<close>: every player whose id equals the id of the updated
  player is replaced by it. The current play is \<open>Play | null\<close>.
\<close>

definition handleUpdatePlayer :: "Play option \<Rightarrow> Player \<Rightarrow> Play option" where
  "handleUpdatePlayer currentPlay updatedPlayer =
     (case currentPlay of
        None \<Rightarrow> None
      | Some cp \<Rightarrow>
          Some (cp\<lparr>players :=
            map (\<lambda>p. if p_id p = p_id updatedPlayer then updatedPlayer else p) (players cp)\<rparr>))"

text \<open>\<open>App.handleClearRoutes\<close>: \<open>players.map(p => ({ ...p, route: [] }))\<close>.\<close>

definition handleClearRoutes :: "Play option \<Rightarrow> Play option" where
  "handleClearRoutes currentPlay =
     (case currentPlay of
        None \<Rightarrow> None
      | Some cp \<Rightarrow> Some (cp\<lparr>players := map (\<lambda>p. p\<lparr>route := []\<rparr>) (players cp)\<rparr>))"

text \<open>
  The example plays of \<open>services/storage.ts\<close>. The module calls \<open>Date.now()\<close> four
  times when it is loaded; \<open>clock n\<close> is the value of call number \<open>n\<close>.
\<close>

definition examplePlayer :: "string \<Rightarrow> string \<Rightarrow> real \<Rightarrow> real \<Rightarrow> Point list \<Rightarrow> Player" where
  "examplePlayer i l px py r =
     \<lparr>p_id = i, label = l, role = OFFENSE, p_x = px, p_y = py, color = ''#2563eb'', route = r\<rparr>"

definition floodRight :: "(nat \<Rightarrow> int) \<Rightarrow> Play" where
  "floodRight clock =
     \<lparr>play_id = ''example-1'', name = ''Flood Right'', formation = ''Trips Right'',
      tags = [''Zone Beater'', ''Medium Yardage''],
      play_notes = ''Overload the right side of the field. QB reads high to low.'',
      createdAt = clock 0, updatedAt = clock 1,
      players =
        [examplePlayer ''p1'' ''QB'' 50 80 [],
         examplePlayer ''p2'' ''C'' 50 60 [\<lparr>pt_x = 50, pt_y = 50\<rparr>, \<lparr>pt_x = 40, pt_y = 45\<rparr>],
         examplePlayer ''p3'' ''WR1'' 85 60 [\<lparr>pt_x = 85, pt_y = 10\<rparr>],
         examplePlayer ''p4'' ''WR2'' 75 60 [\<lparr>pt_x = 75, pt_y = 40\<rparr>, \<lparr>pt_x = 90, pt_y = 40\<rparr>],
         examplePlayer ''p5'' ''RB'' 60 80 [\<lparr>pt_x = 90, pt_y = 70\<rparr>]]\<rparr>"

definition mesh :: "(nat \<Rightarrow> int) \<Rightarrow> Play" where
  "mesh clock =
     \<lparr>play_id = ''example-2'', name = ''Mesh'', formation = ''Spread'',
      tags = [''Man Beater'', ''Short Yardage''],
      play_notes = ''Inside receivers cross close enough to high-five.'',
      createdAt = clock 2, updatedAt = clock 3,
      players =
        [examplePlayer ''p1'' ''QB'' 50 80 [],
         examplePlayer ''p2'' ''C'' 50 60 [\<lparr>pt_x = 50, pt_y = 50\<rparr>, \<lparr>pt_x = 50, pt_y = 40\<rparr>],
         examplePlayer ''p3'' ''SL'' 35 60 [\<lparr>pt_x = 35, pt_y = 55\<rparr>, \<lparr>pt_x = 65, pt_y = 55\<rparr>],
         examplePlayer ''p4'' ''SR'' 65 60 [\<lparr>pt_x = 65, pt_y = 58\<rparr>, \<lparr>pt_x = 35, pt_y = 58\<rparr>],
         examplePlayer ''p5'' ''WR'' 10 60 [\<lparr>pt_x = 10, pt_y = 20\<rparr>]]\<rparr>"

definition EXAMPLE_PLAYS :: "(nat \<Rightarrow> int) \<Rightarrow> Play list" where
  "EXAMPLE_PLAYS clock = [floodRight clock, mesh clock]"

section \<open>Persistence of the play list\<close>

text \<open>
  The browser's \<open>localStorage\<close>: the stored items, whether the page is denied access
  to the storage (every call then throws a \<open>SecurityError\<close>), and which writes the
  browser rejects (\<open>setItem\<close> then throws a \<open>QuotaExceededError\<close>). \<open>getItem\<close> of an
  absent key is \<open>null\<close>.
\<close>

datatype StorageError = SecurityError | QuotaExceededError

record LocalStorage =
  items :: "string \<rightharpoonup> string"
  accessDenied :: bool
  writeRejected :: "string \<Rightarrow> string \<Rightarrow> bool"

definition getItem :: "LocalStorage \<Rightarrow> string \<Rightarrow> StorageError + string option" where
  "getItem ls key = (if accessDenied ls then Inl SecurityError else Inr (items ls key))"

definition setItem :: "LocalStorage \<Rightarrow> string \<Rightarrow> string \<Rightarrow> StorageError + LocalStorage" where
  "setItem ls key val =
     (if accessDenied ls then Inl SecurityError
      else if writeRejected ls key val then Inl QuotaExceededError
      else Inr (ls\<lparr>items := (items ls)(key \<mapsto> val)\<rparr>))"

definition STORAGE_KEY :: string where
  "STORAGE_KEY = ''playmaker_plays_v1''"

text \<open>
  What \<open>getPlays\<close> returns: a list of plays that the code itself builds (the examples,
  the empty list), or the value that \<open>JSON.parse\<close> gave, which the code returns as it
  is, whatever its shape.
\<close>

datatype 'v Loaded = PlayList "Play list" | Parsed 'v

text \<open>
  \<open>getPlays\<close> of \<open>services/storage.ts\<close>. \<open>JSON.parse\<close> and \<open>JSON.stringify\<close> are
  parameters: \<open>parse\<close> gives the parsed value, or \<open>None\<close> where \<open>JSON.parse\<close> throws
  (it throws on every text that is not JSON, the empty text among them). Only the call
  of \<open>JSON.parse\<close> is inside the \<open>try\<close> block: an exception of \<open>getItem\<close> or of
  \<open>setItem\<close> leaves the function (\<open>Inl\<close>).
\<close>

definition getPlays ::
  "(string \<Rightarrow> 'v option) \<Rightarrow> (Play list \<Rightarrow> string) \<Rightarrow> (nat \<Rightarrow> int)
     \<Rightarrow> LocalStorage \<Rightarrow> StorageError + ('v Loaded \<times> LocalStorage)" where
  "getPlays parse stringify clock localStorage =
     (case getItem localStorage STORAGE_KEY of
        Inl err \<Rightarrow> Inl err
      | Inr stored \<Rightarrow>
          (let seeded =
                 (case setItem localStorage STORAGE_KEY (stringify (EXAMPLE_PLAYS clock)) of
                    Inl err \<Rightarrow> Inl err
                  | Inr written \<Rightarrow> Inr (PlayList (EXAMPLE_PLAYS clock), written))
           in case stored of
                None \<Rightarrow> seeded
              | Some text \<Rightarrow>
                  if \<not> truthy (Some text) then seeded
                  else (case parse text of
                          Some val \<Rightarrow> Inr (Parsed val, localStorage)
                        | None \<Rightarrow> Inr (PlayList [], localStorage))))"

text \<open>
  The route templates of \<open>App\<close> (\<open>ROUTE_PRESETS\<close>): each gives the points of a route
  from the player's position and the two directions.
\<close>

datatype RouteType =
  R_fly | R_slant | R_out | R_in | R_corner | R_post | R_hitch | R_flat | R_wheel

fun getPoints :: "RouteType \<Rightarrow> real \<Rightarrow> real \<Rightarrow> real \<Rightarrow> real \<Rightarrow> Point list" where
  "getPoints R_fly x y inDir outDir = [\<lparr>pt_x = x, pt_y = max 5 (y - 40)\<rparr>]"
| "getPoints R_slant x y inDir outDir =
     [\<lparr>pt_x = x, pt_y = y - 5\<rparr>, \<lparr>pt_x = x + (inDir * 15), pt_y = y - 20\<rparr>]"
| "getPoints R_flat x y inDir outDir =
     [\<lparr>pt_x = x, pt_y = y - 5\<rparr>, \<lparr>pt_x = x + (outDir * 15), pt_y = y - 5\<rparr>]"
| "getPoints R_out x y inDir outDir =
     [\<lparr>pt_x = x, pt_y = y - 15\<rparr>, \<lparr>pt_x = x + (outDir * 15), pt_y = y - 15\<rparr>]"
| "getPoints R_in x y inDir outDir =
     [\<lparr>pt_x = x, pt_y = y - 15\<rparr>, \<lparr>pt_x = x + (inDir * 15), pt_y = y - 15\<rparr>]"
| "getPoints R_hitch x y inDir outDir =
     [\<lparr>pt_x = x, pt_y = y - 15\<rparr>, \<lparr>pt_x = x, pt_y = y - 12\<rparr>]"
| "getPoints R_corner x y inDir outDir =
     [\<lparr>pt_x = x, pt_y = y - 15\<rparr>, \<lparr>pt_x = x + (outDir * 20), pt_y = y - 40\<rparr>]"
| "getPoints R_post x y inDir outDir =
     [\<lparr>pt_x = x, pt_y = y - 15\<rparr>, \<lparr>pt_x = x + (inDir * 20), pt_y = y - 45\<rparr>]"
| "getPoints R_wheel x y inDir outDir =
     [\<lparr>pt_x = x + (outDir * 10), pt_y = y - 5\<rparr>, \<lparr>pt_x = x + (outDir * 10), pt_y = y - 35\<rparr>]"

text \<open>
  \<open>App.applyRoutePreset\<close>. The template's \<open>getPoints\<close> is a parameter, so that the
  result holds for any template; \<open>presetRoute\<close> is the \<open>clampedRoute\<close> of the source.
\<close>

definition presetRoute ::
  "(real \<Rightarrow> real \<Rightarrow> real \<Rightarrow> real \<Rightarrow> Point list) \<Rightarrow> Player \<Rightarrow> Point list" where
  "presetRoute templateGetPoints player =
     (let isLeft = p_x player < 50;
          inDir = (if isLeft then 1 else - 1);
          outDir = (if isLeft then - 1 else 1);
          newRoute = templateGetPoints (p_x player) (p_y player) inDir outDir
      in map (\<lambda>p. \<lparr>pt_x = max 2 (min 98 (pt_x p)), pt_y = max 2 (min 78 (pt_y p))\<rparr>) newRoute)"

definition applyRoutePreset ::
  "Play option \<Rightarrow> string option \<Rightarrow> (real \<Rightarrow> real \<Rightarrow> real \<Rightarrow> real \<Rightarrow> Point list) \<Rightarrow> Play option" where
  "applyRoutePreset currentPlay selectedId templateGetPoints =
     (case currentPlay of
        None \<Rightarrow> currentPlay
      | Some cp \<Rightarrow>
          if \<not> truthy selectedId then currentPlay
          else (case find (\<lambda>p. Some (p_id p) = selectedId) (players cp) of
                  None \<Rightarrow> currentPlay
                | Some player \<Rightarrow>
                    handleUpdatePlayer currentPlay
                      (player\<lparr>route := presetRoute templateGetPoints player\<rparr>)))"

section \<open>Screen coordinates\<close>

text \<open>
  \<open>getSvgPoint\<close> maps client coordinates to the coordinates of the surface with the
  current transformation matrix of the SVG element. The reference to the element may be
  \<open>null\<close> (outer \<open>None\<close>) and so may the matrix (inner \<open>None\<close>); both give the origin.
  The quotients are those of the real numbers. For a matrix with a zero scale factor
  \<open>a\<close> or \<open>d\<close> the source computes an infinity or NaN, which the real numbers do not
  have, so the equation below is the source's only where \<open>mapsToPlane\<close> holds, and
  every result about a mapped point assumes it.
\<close>

record CTM =
  ctm_a :: real
  ctm_d :: real
  ctm_e :: real
  ctm_f :: real

definition getSvgPoint :: "CTM option option \<Rightarrow> real \<Rightarrow> real \<Rightarrow> Point" where
  "getSvgPoint svgRef cX cY =
     (case svgRef of
        None \<Rightarrow> \<lparr>pt_x = 0, pt_y = 0\<rparr>
      | Some None \<Rightarrow> \<lparr>pt_x = 0, pt_y = 0\<rparr>
      | Some (Some m) \<Rightarrow> \<lparr>pt_x = (cX - ctm_e m) / ctm_a m, pt_y = (cY - ctm_f m) / ctm_d m\<rparr>)"

text \<open>
  The transform maps every pointer position to a point of the plane: the matrix, when
  there is one, has nonzero scale factors.
\<close>

definition mapsToPlane :: "CTM option option \<Rightarrow> bool" where
  "mapsToPlane svgRef \<longleftrightarrow>
     (case svgRef of Some (Some m) \<Rightarrow> ctm_a m \<noteq> 0 \<and> ctm_d m \<noteq> 0 | _ \<Rightarrow> True)"

definition identityCTM :: CTM where
  "identityCTM = \<lparr>ctm_a = 1, ctm_d = 1, ctm_e = 0, ctm_f = 0\<rparr>"

section \<open>The viewport of the pan and zoom surface\<close>

text \<open>
  The variant of the component with a viewport keeps \<open>{ x, y, zoom }\<close> and renders the
  view box \<open>x y (FIELD_WIDTH / zoom) (FIELD_HEIGHT / zoom)\<close>.
\<close>

record ViewportState =
  vp_x :: real
  vp_y :: real
  zoom :: real

definition clampViewport :: "ViewportState \<Rightarrow> ViewportState" where
  "clampViewport candidate =
     (let width = FIELD_WIDTH / zoom candidate;
          height = FIELD_HEIGHT / zoom candidate;
          minX = - FIELD_WIDTH * 0.25;
          maxX = FIELD_WIDTH - width + FIELD_WIDTH * 0.25;
          minY = - FIELD_HEIGHT * 0.25;
          maxY = FIELD_HEIGHT - height + FIELD_HEIGHT * 0.25
      in candidate\<lparr>vp_x := min (max (vp_x candidate) minX) maxX,
                   vp_y := min (max (vp_y candidate) minY) maxY\<rparr>)"

definition setViewportClamped ::
  "(ViewportState \<Rightarrow> ViewportState) \<Rightarrow> ViewportState \<Rightarrow> ViewportState" where
  "setViewportClamped updater prev = clampViewport (updater prev)"

text \<open>The state updater that \<open>handleWheel\<close> passes to \<open>setViewportClamped\<close>.\<close>

definition wheelUpdater :: "real \<Rightarrow> Point \<Rightarrow> ViewportState \<Rightarrow> ViewportState" where
  "wheelUpdater zoomDelta focusPoint prev =
     (let newZoom = min 2.5 (max 0.6 (zoom prev * zoomDelta));
          prevWidth = FIELD_WIDTH / zoom prev;
          prevHeight = FIELD_HEIGHT / zoom prev;
          newWidth = FIELD_WIDTH / newZoom;
          newHeight = FIELD_HEIGHT / newZoom;
          scaleX = (pt_x focusPoint - vp_x prev) / prevWidth;
          scaleY = (pt_y focusPoint - vp_y prev) / prevHeight;
          newX = pt_x focusPoint - scaleX * newWidth;
          newY = pt_y focusPoint - scaleY * newHeight
      in \<lparr>vp_x = newX, vp_y = newY, zoom = newZoom\<rparr>)"

record WheelEvent =
  w_clientX :: real
  w_clientY :: real
  deltaY :: real

definition handleWheel ::
  "bool \<Rightarrow> CTM option option \<Rightarrow> WheelEvent \<Rightarrow> ViewportState \<Rightarrow> ViewportState" where
  "handleWheel readOnlyFlag svgRef e viewport =
     (if readOnlyFlag then viewport
      else
        let direction = (if deltaY e < 0 then 1 else - 1 :: int);
            zoomDelta = (if direction > 0 then 1.08 else 0.92);
            focusPoint = getSvgPoint svgRef (w_clientX e) (w_clientY e)
        in setViewportClamped (wheelUpdater zoomDelta focusPoint) viewport)"

text \<open>
  The position of a point of the surface in the rendered view, as the fraction of the
  view box that lies before it on each axis. This is the quantity \<open>scaleX\<close>, \<open>scaleY\<close>
  that \<open>handleWheel\<close> computes for the focus point; the view box has the fixed aspect
  ratio of the surface, so the pixel under the point is a fixed affine image of it.
\<close>

definition viewFraction :: "ViewportState \<Rightarrow> Point \<Rightarrow> real \<times> real" where
  "viewFraction v p =
     ((pt_x p - vp_x v) / (FIELD_WIDTH / zoom v), (pt_y p - vp_y v) / (FIELD_HEIGHT / zoom v))"

text \<open>
  A legal viewport in the words of the specification: the zoom lies in the fixed range
  and the visible window exceeds the surface by at most a quarter of its dimensions on
  every side.
\<close>

definition legalViewport :: "ViewportState \<Rightarrow> bool" where
  "legalViewport v \<longleftrightarrow>
     0.6 \<le> zoom v \<and> zoom v \<le> 2.5
     \<and> - (FIELD_WIDTH * 0.25) \<le> vp_x v
     \<and> vp_x v + FIELD_WIDTH / zoom v \<le> FIELD_WIDTH + FIELD_WIDTH * 0.25
     \<and> - (FIELD_HEIGHT * 0.25) \<le> vp_y v
     \<and> vp_y v + FIELD_HEIGHT / zoom v \<le> FIELD_HEIGHT + FIELD_HEIGHT * 0.25"

section \<open>The surface component: pointer gestures and batched updates\<close>

text \<open>
  The component \<open>Field\<close> of \<open>components/Field.tsx\<close>. Its props are the play, the
  selected player and the read-only flag; the callbacks \<open>onSelectPlayer\<close> and
  \<open>onUpdatePlayer\<close> of the host are the effects that a handler returns, in the order
  of the calls.
\<close>

record FieldProps =
  play :: Play
  selectedPlayerId :: "string option"
  readOnly :: bool

datatype Effect = onSelectPlayer "string option" | onUpdatePlayer Player

datatype InteractionType = I_player | I_route | I_field

text \<open>
  The value of \<open>interactionRef.current\<close>. An absent optional property
  (\<open>playerId\<close>, \<open>routeIndex\<close>) and a \<open>null\<close> are \<open>None\<close>.
\<close>

record Interaction =
  pointerId :: "int option"
  itype :: "InteractionType option"
  playerId :: "string option"
  routeIndex :: "nat option"
  startPoint :: "Point option"
  moved :: bool

record PointerEvent =
  clientX :: real
  clientY :: real
  e_pointerId :: int

record RouteHandle =
  h_playerId :: string
  pointIndex :: nat

text \<open>
  A callback handed to \<open>requestAnimationFrame\<close> is a closure; it is kept as the data
  it captured: the player id and the play of the render that scheduled it, and for a
  route handle also the index and the clamped point.
\<close>

datatype FrameCallback =
  PlayerFrame string Play
| RouteFrame string nat Point Play

text \<open>
  The state of a mounted component: the two React state cells, the four refs, and the
  browser's list of requested animation frame callbacks with the next handle. React
  applies an update of a state cell with the next render; the model applies it at once.
  The cells \<open>isDragging\<close> and \<open>dragTrail\<close> only feed the rendering.
\<close>

record FieldState =
  isDragging :: bool
  dragTrail :: "Point list"
  interactionRef :: Interaction
  pendingFrameRef :: "nat option"
  latestPointRef :: "Point option"
  pendingRouteFrame :: "nat option"
  rafQueue :: "(nat \<times> FrameCallback) list"
  rafNext :: nat

definition idleInteraction :: Interaction where
  "idleInteraction =
     \<lparr>pointerId = None, itype = None, playerId = None, routeIndex = None,
      startPoint = None, moved = False\<rparr>"

definition initialState :: FieldState where
  "initialState =
     \<lparr>isDragging = False, dragTrail = [], interactionRef = idleInteraction,
      pendingFrameRef = None, latestPointRef = None, pendingRouteFrame = None,
      rafQueue = [], rafNext = 1\<rparr>"

definition requestAnimationFrame :: "FrameCallback \<Rightarrow> FieldState \<Rightarrow> nat \<times> FieldState" where
  "requestAnimationFrame cb s =
     (rafNext s, s\<lparr>rafQueue := rafQueue s @ [(rafNext s, cb)], rafNext := rafNext s + 1\<rparr>)"

definition schedulePlayerUpdate :: "Play \<Rightarrow> string \<Rightarrow> Point \<Rightarrow> FieldState \<Rightarrow> FieldState" where
  "schedulePlayerUpdate pl pid point s =
     (let s1 = s\<lparr>latestPointRef := Some point\<rparr>
      in if pendingFrameRef s1 = None
         then (case requestAnimationFrame (PlayerFrame pid pl) s1 of
                 (h, s2) \<Rightarrow> s2\<lparr>pendingFrameRef := Some h\<rparr>)
         else s1)"

text \<open>\<open>xs.slice(-n)\<close>: the last \<open>n\<close> elements.\<close>

definition sliceLast :: "nat \<Rightarrow> 'a list \<Rightarrow> 'a list" where
  "sliceLast n xs = drop (length xs - n) xs"

text \<open>\<open>route.map((pt, idx) => idx === routeIndex ? clamped : pt)\<close>.\<close>

definition replacePoint :: "nat \<Rightarrow> Point \<Rightarrow> Point list \<Rightarrow> Point list" where
  "replacePoint ri clamped r =
     map (\<lambda>(idx, pt). if idx = ri then clamped else pt) (enumerate 0 r)"

text \<open>
  Running one requested callback. The position callback is the arrow function inside
  \<open>schedulePlayerUpdate\<close>, the route callback the one inside \<open>handlePointerMove\<close>.
\<close>

fun runCallback :: "FrameCallback \<Rightarrow> FieldState \<Rightarrow> FieldState \<times> Effect list" where
  "runCallback (PlayerFrame pid pl) s =
     (let s1 = s\<lparr>pendingFrameRef := None\<rparr>
      in case latestPointRef s1 of
           None \<Rightarrow> (s1, [])
         | Some latest \<Rightarrow>
             (case find (\<lambda>p. p_id p = pid) (players pl) of
                Some player \<Rightarrow>
                  (s1\<lparr>dragTrail := sliceLast 10 (dragTrail s1 @ [latest])\<rparr>,
                   [onUpdatePlayer (player\<lparr>p_x := pt_x latest, p_y := pt_y latest\<rparr>)])
              | None \<Rightarrow> (s1, [])))"
| "runCallback (RouteFrame pid ri clamped pl) s =
     (let s1 = s\<lparr>pendingRouteFrame := None\<rparr>
      in case find (\<lambda>p. p_id p = pid) (players pl) of
           None \<Rightarrow> (s1, [])
         | Some player \<Rightarrow>
             (s1, [onUpdatePlayer (player\<lparr>route := replacePoint ri clamped (route player)\<rparr>)]))"

fun runCallbacks :: "FrameCallback list \<Rightarrow> FieldState \<Rightarrow> FieldState \<times> Effect list" where
  "runCallbacks [] s = (s, [])"
| "runCallbacks (cb # cbs) s =
     (case runCallback cb s of
        (s1, effs1) \<Rightarrow> (case runCallbacks cbs s1 of (s2, effs2) \<Rightarrow> (s2, effs1 @ effs2)))"

text \<open>
  An animation frame of the browser: the callbacks requested so far are taken off the
  list and run in the order of their requests.
\<close>

definition animationFrame :: "FieldState \<Rightarrow> FieldState \<times> Effect list" where
  "animationFrame s = runCallbacks (map snd (rafQueue s)) (s\<lparr>rafQueue := []\<rparr>)"

definition handlePointerDown ::
  "FieldProps \<Rightarrow> CTM option option \<Rightarrow> PointerEvent \<Rightarrow> Player option \<Rightarrow> RouteHandle option
     \<Rightarrow> FieldState \<Rightarrow> FieldState \<times> Effect list" where
  "handlePointerDown props svgRef e player routeHandle s =
     (if readOnly props then (s, [])
      else
        let point = getSvgPoint svgRef (clientX e) (clientY e)
        in case player of
             Some pl \<Rightarrow>
               (s\<lparr>isDragging := True,
                  interactionRef :=
                    \<lparr>pointerId = Some (e_pointerId e), itype = Some I_player,
                     playerId = Some (p_id pl), routeIndex = None,
                     startPoint = Some point, moved = False\<rparr>\<rparr>,
                [onSelectPlayer (Some (p_id pl))])
           | None \<Rightarrow>
               (case routeHandle of
                  Some rh \<Rightarrow>
                    (s\<lparr>interactionRef :=
                         \<lparr>pointerId = Some (e_pointerId e), itype = Some I_route,
                          playerId = Some (h_playerId rh), routeIndex = Some (pointIndex rh),
                          startPoint = Some point, moved = False\<rparr>\<rparr>,
                     [])
                | None \<Rightarrow>
                    (s\<lparr>interactionRef :=
                         \<lparr>pointerId = Some (e_pointerId e), itype = Some I_field,
                          playerId = None, routeIndex = None,
                          startPoint = Some point, moved = False\<rparr>\<rparr>,
                     [])))"

text \<open>The clamp of a dragged position or route point: 2 units inside the surface.\<close>

definition clampMargin :: "Point \<Rightarrow> Point" where
  "clampMargin point =
     \<lparr>pt_x = max 2 (min (FIELD_WIDTH - 2) (pt_x point)),
      pt_y = max 2 (min (FIELD_HEIGHT - 2) (pt_y point))\<rparr>"

text \<open>The clamp of a tapped route point: the surface itself.\<close>

definition clampSurface :: "Point \<Rightarrow> Point" where
  "clampSurface point =
     \<lparr>pt_x = max 0 (min FIELD_WIDTH (pt_x point)),
      pt_y = max 0 (min FIELD_HEIGHT (pt_y point))\<rparr>"

definition handlePointerMove ::
  "FieldProps \<Rightarrow> CTM option option \<Rightarrow> PointerEvent \<Rightarrow> FieldState \<Rightarrow> FieldState" where
  "handlePointerMove props svgRef e s =
     (let interaction = interactionRef s
      in if readOnly props \<or> pointerId interaction \<noteq> Some (e_pointerId e)
            \<or> itype interaction = None
         then s
         else
           let point = getSvgPoint svgRef (clientX e) (clientY e);
               s1 = s\<lparr>interactionRef := interaction\<lparr>moved := True\<rparr>\<rparr>;
               s2 = (if itype interaction = Some I_player \<and> truthy (playerId interaction)
                     then (case playerId interaction of
                             Some pid \<Rightarrow> schedulePlayerUpdate (play props) pid (clampMargin point) s1
                           | None \<Rightarrow> s1)
                     else s1)
           in if itype interaction = Some I_route
              then (case (playerId interaction, routeIndex interaction) of
                      (Some pid, Some ri) \<Rightarrow>
                        (let clamped = clampMargin point
                         in if pendingRouteFrame s2 = None
                            then (case requestAnimationFrame
                                         (RouteFrame pid ri clamped (play props)) s2 of
                                    (h, s3) \<Rightarrow> s3\<lparr>pendingRouteFrame := Some h\<rparr>)
                            else s2)
                    | _ \<Rightarrow> s2)
              else s2)"

definition handlePointerUp ::
  "FieldProps \<Rightarrow> CTM option option \<Rightarrow> PointerEvent \<Rightarrow> FieldState \<Rightarrow> FieldState \<times> Effect list" where
  "handlePointerUp props svgRef e s =
     (let interaction = interactionRef s
      in if pointerId interaction \<noteq> Some (e_pointerId e) then (s, [])
         else
           let s1 = (if itype interaction = Some I_player
                     then s\<lparr>isDragging := False, dragTrail := []\<rparr> else s);
               effs =
                 (if itype interaction = Some I_field \<and> \<not> moved interaction
                     \<and> truthy (selectedPlayerId props)
                  then
                    let point = getSvgPoint svgRef (clientX e) (clientY e);
                        currentPlayer =
                          find (\<lambda>p. Some (p_id p) = selectedPlayerId props) (players (play props))
                    in (case currentPlayer of
                          Some cp \<Rightarrow>
                            if role cp = OFFENSE
                            then [onUpdatePlayer (cp\<lparr>route := route cp @ [clampSurface point]\<rparr>)]
                            else [onSelectPlayer None]
                        | None \<Rightarrow> [onSelectPlayer None])
                  else [])
           in (s1\<lparr>interactionRef := idleInteraction\<rparr>, effs))"

text \<open>
  The events of a mounted component, each with the props and the element reference of
  the render that receives it. A pointer-down carries the player or the route handle
  under the pointer, as the element that received it passes them to the handler. The
  surface binds \<open>handlePointerUp\<close> to both \<open>onPointerUp\<close> and \<open>onPointerLeave\<close>, so
  \<open>PointerUp\<close> stands for either.
\<close>

datatype Event =
  PointerDown PointerEvent "Player option" "RouteHandle option"
| PointerMove PointerEvent
| PointerUp PointerEvent
| AnimationFrame

fun isPointerEvent :: "Event \<Rightarrow> bool" where
  "isPointerEvent AnimationFrame = False"
| "isPointerEvent _ = True"

fun step :: "FieldProps \<Rightarrow> CTM option option \<Rightarrow> Event \<Rightarrow> FieldState \<Rightarrow> FieldState \<times> Effect list" where
  "step props svgRef (PointerDown e player routeHandle) s =
     handlePointerDown props svgRef e player routeHandle s"
| "step props svgRef (PointerMove e) s = (handlePointerMove props svgRef e s, [])"
| "step props svgRef (PointerUp e) s = handlePointerUp props svgRef e s"
| "step props svgRef AnimationFrame s = animationFrame s"

fun run ::
  "(FieldProps \<times> CTM option option \<times> Event) list \<Rightarrow> FieldState \<Rightarrow> FieldState \<times> Effect list" where
  "run [] s = (s, [])"
| "run ((props, svgRef, ev) # evs) s =
     (case step props svgRef ev s of
        (s1, effs1) \<Rightarrow> (case run evs s1 of (s2, effs2) \<Rightarrow> (s2, effs1 @ effs2)))"

section \<open>Bounds and sample inputs\<close>

text \<open>
  The two rectangles of the claims: the surface inset by the margin of 2 units, and the
  surface itself.
\<close>

definition inMargin :: "Point \<Rightarrow> bool" where
  "inMargin pt \<longleftrightarrow> 2 \<le> pt_x pt \<and> pt_x pt \<le> 98 \<and> 2 \<le> pt_y pt \<and> pt_y pt \<le> 78"

definition inSurface :: "Point \<Rightarrow> bool" where
  "inSurface pt \<longleftrightarrow> 0 \<le> pt_x pt \<and> pt_x pt \<le> 100 \<and> 0 \<le> pt_y pt \<and> pt_y pt \<le> 80"

text \<open>
  The points that pending frame callbacks will write: the latest drag sample and the
  clamped point of each requested route callback.
\<close>

fun callbackClamped :: "FrameCallback \<Rightarrow> bool" where
  "callbackClamped (PlayerFrame pid pl) = True"
| "callbackClamped (RouteFrame pid ri clamped pl) = inMargin clamped"

definition samplesClamped :: "FieldState \<Rightarrow> bool" where
  "samplesClamped s \<longleftrightarrow>
     (case latestPointRef s of None \<Rightarrow> True | Some pt \<Rightarrow> inMargin pt)
     \<and> list_all callbackClamped (map snd (rafQueue s))"

text \<open>Inputs for the examples: props of an editable and of a read-only surface.\<close>

definition editing :: "Play \<Rightarrow> string option \<Rightarrow> FieldProps" where
  "editing pl sel = \<lparr>play = pl, selectedPlayerId = sel, readOnly = False\<rparr>"

definition viewing :: "Play \<Rightarrow> string option \<Rightarrow> FieldProps" where
  "viewing pl sel = \<lparr>play = pl, selectedPlayerId = sel, readOnly = True\<rparr>"

definition zeroClock :: "nat \<Rightarrow> int" where
  "zeroClock n = 0"

definition pointerAt :: "real \<Rightarrow> real \<Rightarrow> PointerEvent" where
  "pointerAt cx cy = \<lparr>clientX = cx, clientY = cy, e_pointerId = 1\<rparr>"

definition mounted :: "CTM option option" where
  "mounted = Some (Some identityCTM)"

text \<open>A play whose only player has the empty string as its id.\<close>

definition unnamedToken :: Player where
  "unnamedToken = examplePlayer [] ''X'' 20 60 []"

definition unnamedPlay :: Play where
  "unnamedPlay = (floodRight zeroClock)\<lparr>players := [unnamedToken]\<rparr>"

text \<open>A play with one defender, as \<open>App.handleAddDefender\<close> adds it.\<close>

definition defender :: Player where
  "defender =
     \<lparr>p_id = ''d1'', label = ''D'', role = DEFENSE, p_x = 50, p_y = 30,
      color = ''#dc2626'', route = []\<rparr>"

definition defensePlay :: Play where
  "defensePlay = (floodRight zeroClock)\<lparr>players := players (floodRight zeroClock) @ [defender]\<rparr>"

text \<open>
  Stand-ins for \<open>JSON.parse\<close> and \<open>JSON.stringify\<close> in the examples: a parser that
  rejects every text, and a serialiser that lists the ids of the plays.
\<close>

definition rejectAll :: "string \<Rightarrow> Play list option" where
  "rejectAll text = None"

definition listIds :: "Play list \<Rightarrow> string" where
  "listIds plays = concat (map play_id plays)"

text \<open>
  A second stand-in for \<open>JSON.parse\<close>, which agrees with it on the texts of the
  examples: it reads the text \<open>42\<close> as the number 42 and rejects the empty text and
  the text \<open>[{\<close>.
\<close>

definition parseNumber :: "string \<Rightarrow> nat option" where
  "parseNumber text = (if text = ''42'' then Some 42 else None)"

text \<open>
  Storages for the examples: one that holds a given text under the key, an empty one,
  an empty one that rejects every write, and one that the page may not access.
\<close>

definition emptyStorage :: LocalStorage where
  "emptyStorage = \<lparr>items = Map.empty, accessDenied = False, writeRejected = (\<lambda>key val. False)\<rparr>"

definition holding :: "string \<Rightarrow> LocalStorage" where
  "holding text = emptyStorage\<lparr>items := [STORAGE_KEY \<mapsto> text]\<rparr>"

definition fullStorage :: LocalStorage where
  "fullStorage = emptyStorage\<lparr>writeRejected := (\<lambda>key val. True)\<rparr>"

definition blockedStorage :: LocalStorage where
  "blockedStorage = emptyStorage\<lparr>accessDenied := True\<rparr>"


text \<open>Every event of a run arrives with a transform that maps to the plane.\<close>

definition allMapToPlane :: "(FieldProps \<times> CTM option option \<times> Event) list \<Rightarrow> bool" where
  "allMapToPlane evs \<longleftrightarrow> list_all (\<lambda>(props, svgRef, ev). mapsToPlane svgRef) evs"

section \<open>Unfolding the sample inputs and the handlers\<close>

lemmas fixture_defs = editing_def pointerAt_def mounted_def identityCTM_def
  floodRight_def examplePlayer_def zeroClock_def initialState_def idleInteraction_def

lemmas handler_defs = handlePointerDown_def handlePointerMove_def handlePointerUp_def
  getSvgPoint_def clampMargin_def clampSurface_def schedulePlayerUpdate_def
  requestAnimationFrame_def animationFrame_def FIELD_WIDTH_def FIELD_HEIGHT_def Let_def

section \<open>Clearing all routes\<close>

lemma handleClearRoutes_players:
  "handleClearRoutes (Some cp) = Some cp' \<Longrightarrow>
     players cp' = map (\<lambda>p. p\<lparr>route := []\<rparr>) (players cp)"
  by (auto simp: handleClearRoutes_def)

lemma routes_cleared:
  "map route (map (\<lambda>p. p\<lparr>route := []\<rparr>) ps) = replicate (length ps) []"
  by (induction ps) simp_all

text \<open>
  Claim C9. Clearing all routes of a play keeps the players in number and order, leaves
  every player with the empty route, and changes no other field of any player (position,
  id, label, role, colour) nor any other field of the play.
\<close>

theorem clearAllPaths_frame:
  "\<exists>cp'. handleClearRoutes (Some cp) = Some cp'
     \<and> length (players cp') = length (players cp)
     \<and> map route (players cp') = replicate (length (players cp)) []
     \<and> map p_x (players cp') = map p_x (players cp)
     \<and> map p_y (players cp') = map p_y (players cp)
     \<and> map p_id (players cp') = map p_id (players cp)
     \<and> map label (players cp') = map label (players cp)
     \<and> map role (players cp') = map role (players cp)
     \<and> map color (players cp') = map color (players cp)
     \<and> cp'\<lparr>players := players cp\<rparr> = cp"
proof -
  obtain cp' where c: "handleClearRoutes (Some cp) = Some cp'"
    by (simp add: handleClearRoutes_def)
  have ps: "players cp' = map (\<lambda>p. p\<lparr>route := []\<rparr>) (players cp)"
    using c by (rule handleClearRoutes_players)
  have rest: "cp'\<lparr>players := players cp\<rparr> = cp"
    using c by (auto simp: handleClearRoutes_def)
  have r: "map route (players cp') = replicate (length (players cp)) []"
    unfolding ps by (rule routes_cleared)
  show ?thesis
    using c rest r by (simp add: ps comp_def)
qed

theorem clearAllPaths_frame_witness:
  "\<exists>cp'. handleClearRoutes (Some (floodRight zeroClock)) = Some cp'
     \<and> map route (players cp') = [[], [], [], [], []]
     \<and> map p_x (players cp') = [50, 50, 85, 75, 60]
     \<and> map p_y (players cp') = [80, 60, 60, 60, 80]"
  using clearAllPaths_frame [of "floodRight zeroClock"]
  by (auto simp: floodRight_def examplePlayer_def)

section \<open>Viewport clamping and wheel zoom\<close>

lemma clamp_twice: "min (max (min (max (x::real) a) b) a) b = min (max x a) b"
  by (simp add: min_def max_def)

lemma clampViewport_zoom: "zoom (clampViewport v) = zoom v"
  by (simp add: clampViewport_def Let_def)

lemma clampViewport_idem: "clampViewport (clampViewport v) = clampViewport v"
  by (simp add: clampViewport_def Let_def clamp_twice)

lemma clampViewport_legal: "legalViewport v \<Longrightarrow> clampViewport v = v"
  by (simp add: clampViewport_def legalViewport_def Let_def min_def max_def)

text \<open>
  Claim C5. \<open>clampViewport\<close> is a total function of the candidate; for every candidate
  with a positive zoom, clamping twice is clamping once, and a legal viewport is
  returned as it is.
\<close>

theorem clampViewport_idempotent_total:
  "0 < zoom v \<Longrightarrow>
     clampViewport (clampViewport v) = clampViewport v
     \<and> (legalViewport v \<longrightarrow> clampViewport v = v)"
  by (simp add: clampViewport_idem clampViewport_legal)

theorem clampViewport_idempotent_total_witness:
  "clampViewport (clampViewport \<lparr>vp_x = 500, vp_y = - 500, zoom = 2\<rparr>)
     = clampViewport \<lparr>vp_x = 500, vp_y = - 500, zoom = 2\<rparr>
   \<and> clampViewport \<lparr>vp_x = 500, vp_y = - 500, zoom = 2\<rparr> = \<lparr>vp_x = 75, vp_y = - 20, zoom = 2\<rparr>
   \<and> legalViewport \<lparr>vp_x = 10, vp_y = 5, zoom = 1.5\<rparr>
   \<and> clampViewport \<lparr>vp_x = 10, vp_y = 5, zoom = 1.5\<rparr> = \<lparr>vp_x = 10, vp_y = 5, zoom = 1.5\<rparr>"
  using clampViewport_idempotent_total [of "\<lparr>vp_x = 500, vp_y = - 500, zoom = 2\<rparr>"]
    clampViewport_idempotent_total [of "\<lparr>vp_x = 10, vp_y = 5, zoom = 1.5\<rparr>"]
  by (simp add: clampViewport_def legalViewport_def FIELD_WIDTH_def FIELD_HEIGHT_def Let_def)

section \<open>Batched position updates\<close>

lemma schedule_pending:
  "pendingFrameRef s \<noteq> None \<Longrightarrow>
     schedulePlayerUpdate pl pid pt s = s\<lparr>latestPointRef := Some pt\<rparr>"
  by (cases "pendingFrameRef s") (simp_all add: schedulePlayerUpdate_def Let_def)

lemma schedule_first:
  "pendingFrameRef s = None \<Longrightarrow>
     schedulePlayerUpdate pl pid pt s =
       s\<lparr>latestPointRef := Some pt,
         rafQueue := rafQueue s @ [(rafNext s, PlayerFrame pid pl)],
         rafNext := rafNext s + 1,
         pendingFrameRef := Some (rafNext s)\<rparr>"
  by (simp add: schedulePlayerUpdate_def requestAnimationFrame_def Let_def)

lemma fold_schedule_pending:
  "pendingFrameRef s \<noteq> None \<Longrightarrow>
     fold (schedulePlayerUpdate pl pid) pts s =
       (if pts = [] then s else s\<lparr>latestPointRef := Some (last pts)\<rparr>)"
proof (induction pts arbitrary: s)
  case Nil
  then show ?case by simp
next
  case (Cons pt pts)
  have "pendingFrameRef (s\<lparr>latestPointRef := Some pt\<rparr>) \<noteq> None"
    using Cons.prems by simp
  then show ?case
    using Cons.prems by (simp add: schedule_pending Cons.IH)
qed

lemma fold_schedule_first:
  assumes "pendingFrameRef s = None" and "pts \<noteq> []"
  shows "fold (schedulePlayerUpdate pl pid) pts s =
       s\<lparr>latestPointRef := Some (last pts),
         rafQueue := rafQueue s @ [(rafNext s, PlayerFrame pid pl)],
         rafNext := rafNext s + 1,
         pendingFrameRef := Some (rafNext s)\<rparr>"
proof (cases pts)
  case Nil
  then show ?thesis using assms(2) by simp
next
  case (Cons pt rest)
  show ?thesis
    unfolding Cons using assms(1)
    by (simp add: schedule_first fold_schedule_pending)
qed

text \<open>
  Claim C3, as the code has it. Starting with no frame pending and no callback
  requested, \<open>N \<ge> 1\<close> position samples \<open>pts\<close> scheduled through \<open>schedulePlayerUpdate\<close>
  for the same token id request exactly one frame callback; when the frame fires, it
  issues exactly one \<open>onUpdatePlayer\<close> call with the last sample if the token is in the
  play that the callback captured, and no call otherwise; afterwards nothing is pending.
\<close>

theorem batching_last_write_wins:
  assumes "pendingFrameRef s = None" and "rafQueue s = []" and "pts \<noteq> []"
    and "s' = fold (schedulePlayerUpdate pl pid) pts s"
  shows "map snd (rafQueue s') = [PlayerFrame pid pl]
     \<and> snd (animationFrame s') =
         (case find (\<lambda>p. p_id p = pid) (players pl) of
            Some p \<Rightarrow> [onUpdatePlayer (p\<lparr>p_x := pt_x (last pts), p_y := pt_y (last pts)\<rparr>)]
          | None \<Rightarrow> [])
     \<and> pendingFrameRef (fst (animationFrame s')) = None
     \<and> rafQueue (fst (animationFrame s')) = []"
  unfolding assms(4) fold_schedule_first [OF assms(1,3)]
  using assms(2) by (simp add: animationFrame_def Let_def split: option.splits)

theorem batching_last_write_wins_witness:
  "snd (animationFrame (fold (schedulePlayerUpdate (floodRight zeroClock) ''p3'')
          [\<lparr>pt_x = 50, pt_y = 50\<rparr>, \<lparr>pt_x = 51, pt_y = 52\<rparr>, \<lparr>pt_x = 53, pt_y = 54\<rparr>]
          initialState))
     = [onUpdatePlayer (examplePlayer ''p3'' ''WR1'' 53 54 [\<lparr>pt_x = 85, pt_y = 10\<rparr>])]"
  using batching_last_write_wins [of initialState
      "[\<lparr>pt_x = 50, pt_y = 50\<rparr>, \<lparr>pt_x = 51, pt_y = 52\<rparr>, \<lparr>pt_x = 53, pt_y = 54\<rparr>]"
      _ "floodRight zeroClock" "''p3''", OF _ _ _ refl]
  by (simp add: fixture_defs)

text \<open>
  The claim as stated fails for a key that names no token of the play (the token was
  removed during the drag): the frame callback makes no call at all.
\<close>

theorem batching_stale_token_counterexample:
  "snd (animationFrame (schedulePlayerUpdate (floodRight zeroClock) ''ghost''
          \<lparr>pt_x = 50, pt_y = 50\<rparr> initialState)) = []"
  by (simp add: fixture_defs handler_defs)

text \<open>
  The route callback of \<open>handlePointerMove\<close> is not scheduled through
  \<open>schedulePlayerUpdate\<close>: it captures the clamped point of the move that requested
  the frame, so of two moves of a route handle within one frame the first is written.
\<close>

lemma routeDrag_keeps_first_sample:
  "snd (run [(editing (floodRight zeroClock) (Some ''p3''), mounted,
                PointerDown (pointerAt 85 10) None (Some \<lparr>h_playerId = ''p3'', pointIndex = 0\<rparr>)),
             (editing (floodRight zeroClock) (Some ''p3''), mounted, PointerMove (pointerAt 80 12)),
             (editing (floodRight zeroClock) (Some ''p3''), mounted, PointerMove (pointerAt 70 20)),
             (editing (floodRight zeroClock) (Some ''p3''), mounted, AnimationFrame)]
            initialState)
     = [onUpdatePlayer (examplePlayer ''p3'' ''WR1'' 85 60 [\<lparr>pt_x = 80, pt_y = 12\<rparr>])]"
  by (simp add: fixture_defs handler_defs replacePoint_def)

section \<open>Replacing a route point, finding a token\<close>

lemma replace_enumerate:
  "map (\<lambda>(idx, pt). if idx = ri then c else pt) (enumerate n r) =
     (if n \<le> ri then r[ri - n := c] else r)"
proof (induction r arbitrary: n)
  case Nil
  then show ?case by simp
next
  case (Cons a r)
  show ?case
  proof (cases "n = ri")
    case True
    then show ?thesis using Cons.IH [of "Suc n"] by simp
  next
    case False
    show ?thesis
    proof (cases "n < ri")
      case True
      then have "ri - n = Suc (ri - Suc n)" by arith
      then have "(a # r)[ri - n := c] = a # r[ri - Suc n := c]"
        by simp
      then show ?thesis
        using True False Cons.IH [of "Suc n"] by simp
    next
      case gt: False
      then show ?thesis
        using False Cons.IH [of "Suc n"] by simp
    qed
  qed
qed

lemma replacePoint_update: "replacePoint ri c r = r[ri := c]"
  by (simp add: replacePoint_def replace_enumerate)


lemma find_Some_mem: "find P xs = Some x \<Longrightarrow> x \<in> set xs \<and> P x"
  by (induction xs) (auto split: if_splits)


section \<open>Wheel zoom\<close>

lemma wheel_zoom_range:
  "0.6 \<le> zoom (wheelUpdater zd f prev) \<and> zoom (wheelUpdater zd f prev) \<le> 2.5"
  by (simp add: wheelUpdater_def Let_def)

lemma wheel_fraction:
  "0 < zoom prev \<Longrightarrow> viewFraction (wheelUpdater zd f prev) f = viewFraction prev f"
  by (simp add: wheelUpdater_def viewFraction_def Let_def FIELD_WIDTH_def FIELD_HEIGHT_def)

lemma handleWheel_unfold:
  "\<not> ro \<Longrightarrow>
     handleWheel ro svgRef e v =
       clampViewport (wheelUpdater (if deltaY e < 0 then 1.08 else 0.92)
         (getSvgPoint svgRef (w_clientX e) (w_clientY e)) v)"
  by (simp add: handleWheel_def setViewportClamped_def Let_def)

lemma clamp_fixed_iff:
  "clampViewport c = c \<longleftrightarrow>
     vp_x (clampViewport c) = vp_x c \<and> vp_y (clampViewport c) = vp_y c"
proof
  assume "clampViewport c = c"
  then show "vp_x (clampViewport c) = vp_x c \<and> vp_y (clampViewport c) = vp_y c"
    by simp
next
  assume a: "vp_x (clampViewport c) = vp_x c \<and> vp_y (clampViewport c) = vp_y c"
  have "clampViewport c = c\<lparr>vp_x := vp_x (clampViewport c), vp_y := vp_y (clampViewport c)\<rparr>"
    by (simp add: clampViewport_def Let_def)
  then show "clampViewport c = c"
    using a by simp
qed

lemma fraction_eq_iff:
  assumes "0 < zoom c"
  shows "viewFraction (clampViewport c) f = viewFraction c f \<longleftrightarrow> clampViewport c = c"
proof -
  have z: "zoom (clampViewport c) = zoom c"
    by (rule clampViewport_zoom)
  have "viewFraction (clampViewport c) f = viewFraction c f \<longleftrightarrow>
      vp_x (clampViewport c) = vp_x c \<and> vp_y (clampViewport c) = vp_y c"
    using assms by (simp add: viewFraction_def z FIELD_WIDTH_def FIELD_HEIGHT_def)
  then show ?thesis
    by (simp add: clamp_fixed_iff)
qed

lemma shrink_keeps_window:
  fixes x f w w' lo hi :: real
  assumes "0 < w" and "0 < w'" and "w' \<le> w" and "x \<le> f" and "f \<le> x + w"
    and "lo \<le> x" and "x + w \<le> hi"
  shows "lo \<le> f - (f - x) / w * w'" and "f - (f - x) / w * w' \<le> hi - w'"
proof -
  let ?s = "(f - x) / w"
  have s0: "0 \<le> ?s" using assms by simp
  have s1: "?s \<le> 1" using assms by simp
  have a: "?s * w' \<le> ?s * w"
    using s0 assms(3) by (rule mult_left_mono[rotated])
  have sw: "?s * w = f - x" using assms(1) by simp
  show "lo \<le> f - ?s * w'"
    using a sw assms(6) by linarith
  have b: "(1 - ?s) * w' \<le> (1 - ?s) * w"
    using s1 assms(3) by (intro mult_left_mono) auto
  have "f - ?s * w' + w' = f + (1 - ?s) * w'" by (simp add: algebra_simps)
  also have "\<dots> \<le> f + (1 - ?s) * w" using b by simp
  also have "\<dots> = x + w" using sw by (simp add: algebra_simps)
  finally show "f - ?s * w' \<le> hi - w'"
    using assms(7) by linarith
qed

lemma clampViewport_fixed:
  assumes "- (FIELD_WIDTH * 0.25) \<le> vp_x c"
    and "vp_x c \<le> FIELD_WIDTH + FIELD_WIDTH * 0.25 - FIELD_WIDTH / zoom c"
    and "- (FIELD_HEIGHT * 0.25) \<le> vp_y c"
    and "vp_y c \<le> FIELD_HEIGHT + FIELD_HEIGHT * 0.25 - FIELD_HEIGHT / zoom c"
  shows "clampViewport c = c"
  using assms by (simp add: clampViewport_def Let_def min_def max_def)

lemma wheelUpdater_origin:
  "vp_x (wheelUpdater zd f v)
     = pt_x f - (pt_x f - vp_x v) / (FIELD_WIDTH / zoom v) * (FIELD_WIDTH / zoom (wheelUpdater zd f v))"
  "vp_y (wheelUpdater zd f v)
     = pt_y f - (pt_y f - vp_y v) / (FIELD_HEIGHT / zoom v) * (FIELD_HEIGHT / zoom (wheelUpdater zd f v))"
  by (simp_all add: wheelUpdater_def Let_def)

lemma wheelUpdater_zoom_in:
  assumes "0.6 \<le> zoom v" and "zoom v \<le> 2.5"
  shows "zoom v \<le> zoom (wheelUpdater 1.08 f v)"
  using assms by (simp add: wheelUpdater_def Let_def min_def max_def)

lemma zoom_in_candidate_fixed:
  assumes "legalViewport v"
    and "vp_x v \<le> pt_x f" and "pt_x f \<le> vp_x v + FIELD_WIDTH / zoom v"
    and "vp_y v \<le> pt_y f" and "pt_y f \<le> vp_y v + FIELD_HEIGHT / zoom v"
  shows "clampViewport (wheelUpdater 1.08 f v) = wheelUpdater 1.08 f v"
proof -
  define c where "c = wheelUpdater 1.08 f v"
  have z: "0.6 \<le> zoom v" "zoom v \<le> 2.5"
    using assms(1) by (simp_all add: legalViewport_def)
  have zpos: "0 < zoom v" using z by simp
  have zz': "zoom v \<le> zoom c"
    unfolding c_def using z by (rule wheelUpdater_zoom_in)
  have z'pos: "0 < zoom c" using zpos zz' by linarith
  have W: "0 < FIELD_WIDTH" and H: "0 < FIELD_HEIGHT"
    by (simp_all add: FIELD_WIDTH_def FIELD_HEIGHT_def)
  have wle: "FIELD_WIDTH / zoom c \<le> FIELD_WIDTH / zoom v"
    using zpos zz' W by (simp add: frac_le)
  have hle: "FIELD_HEIGHT / zoom c \<le> FIELD_HEIGHT / zoom v"
    using zpos zz' H by (simp add: frac_le)
  have w: "0 < FIELD_WIDTH / zoom v" "0 < FIELD_WIDTH / zoom c"
    "0 < FIELD_HEIGHT / zoom v" "0 < FIELD_HEIGHT / zoom c"
    using zpos z'pos W H by simp_all
  have lx: "- (FIELD_WIDTH * 0.25) \<le> vp_x v"
    "vp_x v + FIELD_WIDTH / zoom v \<le> FIELD_WIDTH + FIELD_WIDTH * 0.25"
    using assms(1) by (simp_all add: legalViewport_def)
  have ly: "- (FIELD_HEIGHT * 0.25) \<le> vp_y v"
    "vp_y v + FIELD_HEIGHT / zoom v \<le> FIELD_HEIGHT + FIELD_HEIGHT * 0.25"
    using assms(1) by (simp_all add: legalViewport_def)
  note X = shrink_keeps_window [OF w(1) w(2) wle assms(2,3) lx]
  note Y = shrink_keeps_window [OF w(3) w(4) hle assms(4,5) ly]
  have "clampViewport c = c"
    using X Y unfolding c_def wheelUpdater_origin [symmetric]
    by (intro clampViewport_fixed) (simp_all only: c_def [symmetric])
  then show ?thesis
    by (simp only: c_def)
qed

text \<open>
  Claim C4, as the code has it. For a wheel event on an editable surface with a
  positive zoom and a transform that maps to the plane, with \<open>focus\<close> the point under
  the pointer and \<open>candidate\<close> the viewport that \<open>wheelUpdater\<close> computes:
  \<^item> the new viewport is the clamped candidate, and its zoom lies in [0.6, 2.5];
  \<^item> the focus has the same place in the view of the candidate as in the previous view;
  \<^item> after clamping the focus has kept its place exactly when clamping leaves the
    candidate as it is, so it has moved whenever clamping moves the origin;
  \<^item> in particular it keeps its place on every zoom-in from a legal viewport with the
    pointer inside the view.
\<close>

theorem handleWheel_zoom_focus:
  assumes "\<not> ro" and "0 < zoom v" and "mapsToPlane svgRef"
    and focus_def: "focus = getSvgPoint svgRef (w_clientX e) (w_clientY e)"
    and candidate_def: "candidate = wheelUpdater (if deltaY e < 0 then 1.08 else 0.92) focus v"
  shows "handleWheel ro svgRef e v = clampViewport candidate
     \<and> 0.6 \<le> zoom (handleWheel ro svgRef e v) \<and> zoom (handleWheel ro svgRef e v) \<le> 2.5
     \<and> viewFraction candidate focus = viewFraction v focus
     \<and> (viewFraction (handleWheel ro svgRef e v) focus = viewFraction v focus
          \<longleftrightarrow> clampViewport candidate = candidate)
     \<and> (deltaY e < 0 \<and> legalViewport v
          \<and> vp_x v \<le> pt_x focus \<and> pt_x focus \<le> vp_x v + FIELD_WIDTH / zoom v
          \<and> vp_y v \<le> pt_y focus \<and> pt_y focus \<le> vp_y v + FIELD_HEIGHT / zoom v \<longrightarrow>
          viewFraction (handleWheel ro svgRef e v) focus = viewFraction v focus)"
proof -
  have h: "handleWheel ro svgRef e v = clampViewport candidate"
    using assms(1) unfolding candidate_def focus_def by (rule handleWheel_unfold)
  have zr: "0.6 \<le> zoom candidate \<and> zoom candidate \<le> 2.5"
    unfolding candidate_def by (rule wheel_zoom_range)
  have z: "0.6 \<le> zoom (clampViewport candidate) \<and> zoom (clampViewport candidate) \<le> 2.5"
    using zr by (simp only: clampViewport_zoom)
  have f: "viewFraction candidate focus = viewFraction v focus"
    unfolding candidate_def using assms(2) by (rule wheel_fraction)
  have zc: "0 < zoom candidate"
    using zr by simp
  have iff: "viewFraction (clampViewport candidate) focus = viewFraction v focus
      \<longleftrightarrow> clampViewport candidate = candidate"
    using fraction_eq_iff [OF zc, of focus] f by simp
  have zin: "clampViewport candidate = candidate"
    if "deltaY e < 0" "legalViewport v"
      "vp_x v \<le> pt_x focus" "pt_x focus \<le> vp_x v + FIELD_WIDTH / zoom v"
      "vp_y v \<le> pt_y focus" "pt_y focus \<le> vp_y v + FIELD_HEIGHT / zoom v"
  proof -
    have "candidate = wheelUpdater 1.08 focus v"
      using that(1) by (simp add: candidate_def)
    then show ?thesis
      using zoom_in_candidate_fixed [OF that(2-6)] by simp
  qed
  show ?thesis
    using h z f iff zin by auto
qed

theorem handleWheel_zoom_focus_witness:
  "handleWheel False (Some (Some identityCTM)) \<lparr>w_clientX = 50, w_clientY = 40, deltaY = - 1\<rparr>
       \<lparr>vp_x = 0, vp_y = 0, zoom = 1\<rparr>
     = \<lparr>vp_x = 100 / 27, vp_y = 80 / 27, zoom = 1.08\<rparr>
   \<and> viewFraction \<lparr>vp_x = 0, vp_y = 0, zoom = 1\<rparr> \<lparr>pt_x = 50, pt_y = 40\<rparr> = (1 / 2, 1 / 2)
   \<and> viewFraction (handleWheel False (Some (Some identityCTM))
         \<lparr>w_clientX = 50, w_clientY = 40, deltaY = - 1\<rparr> \<lparr>vp_x = 0, vp_y = 0, zoom = 1\<rparr>)
       \<lparr>pt_x = 50, pt_y = 40\<rparr> = (1 / 2, 1 / 2)
   \<and> legalViewport \<lparr>vp_x = 0, vp_y = 0, zoom = 1\<rparr>"
  using handleWheel_zoom_focus [of False "\<lparr>vp_x = 0, vp_y = 0, zoom = 1\<rparr>"
      "Some (Some identityCTM)" _
      "\<lparr>w_clientX = 50, w_clientY = 40, deltaY = - 1\<rparr>", OF _ _ _ refl refl]
  by (simp add: getSvgPoint_def identityCTM_def mapsToPlane_def wheelUpdater_def
      clampViewport_def viewFraction_def legalViewport_def FIELD_WIDTH_def FIELD_HEIGHT_def
      Let_def)

text \<open>
  The claim as stated fails after clamping. The viewport \<open>(-25, -20)\<close> at zoom 1 is
  legal; zooming out with the pointer over the point \<open>(75, 60)\<close>, the far corner of the
  view, asks for the origin \<open>(-33.7, -26.96)\<close>, which clamping moves back to
  \<open>(-25, -20)\<close>: the point leaves the corner of the view.
\<close>

theorem handleWheel_focus_counterexample:
  "legalViewport \<lparr>vp_x = - 25, vp_y = - 20, zoom = 1\<rparr>
   \<and> getSvgPoint (Some (Some identityCTM)) 75 60 = \<lparr>pt_x = 75, pt_y = 60\<rparr>
   \<and> viewFraction \<lparr>vp_x = - 25, vp_y = - 20, zoom = 1\<rparr> \<lparr>pt_x = 75, pt_y = 60\<rparr> = (1, 1)
   \<and> handleWheel False (Some (Some identityCTM)) \<lparr>w_clientX = 75, w_clientY = 60, deltaY = 1\<rparr>
        \<lparr>vp_x = - 25, vp_y = - 20, zoom = 1\<rparr> = \<lparr>vp_x = - 25, vp_y = - 20, zoom = 0.92\<rparr>
   \<and> viewFraction (handleWheel False (Some (Some identityCTM))
          \<lparr>w_clientX = 75, w_clientY = 60, deltaY = 1\<rparr> \<lparr>vp_x = - 25, vp_y = - 20, zoom = 1\<rparr>)
        \<lparr>pt_x = 75, pt_y = 60\<rparr> = (0.92, 0.92)"
  by (simp add: handleWheel_def setViewportClamped_def getSvgPoint_def identityCTM_def
      wheelUpdater_def clampViewport_def viewFraction_def legalViewport_def
      FIELD_WIDTH_def FIELD_HEIGHT_def Let_def)

section \<open>Token drag: the submitted position\<close>

lemma clampMargin_bounds:
  "2 \<le> pt_x (clampMargin q) \<and> pt_x (clampMargin q) \<le> 100 - 2
   \<and> 2 \<le> pt_y (clampMargin q) \<and> pt_y (clampMargin q) \<le> 80 - 2"
  by (simp add: clampMargin_def FIELD_WIDTH_def FIELD_HEIGHT_def)

lemma latest_schedulePlayerUpdate:
  "latestPointRef (schedulePlayerUpdate pl pid pt s) = Some pt"
  by (simp add: schedulePlayerUpdate_def requestAnimationFrame_def Let_def)

lemma handlePointerMove_player:
  assumes "\<not> readOnly props" "pointerId (interactionRef s) = Some (e_pointerId e)"
    "itype (interactionRef s) = Some I_player"
  shows "handlePointerMove props svgRef e s =
    (let s1 = s\<lparr>interactionRef := (interactionRef s)\<lparr>moved := True\<rparr>\<rparr> in
     case playerId (interactionRef s) of
       None \<Rightarrow> s1
     | Some pid \<Rightarrow> if pid = [] then s1
         else schedulePlayerUpdate (play props) pid
                (clampMargin (getSvgPoint svgRef (clientX e) (clientY e))) s1)"
  using assms by (simp add: handlePointerMove_def Let_def split: option.splits)

lemma playerFrame_commits:
  assumes "latestPointRef t = Some c" and "find (\<lambda>q. p_id q = pid) (players pl) = Some p"
  shows "snd (runCallback (PlayerFrame pid pl) t) = [onUpdatePlayer (p\<lparr>p_x := pt_x c, p_y := pt_y c\<rparr>)]"
  using assms by (simp add: Let_def)

text \<open>
  Claim C6. Take a move event of a live token drag (editable surface, the pointer of the
  interaction, interaction of type \<open>player\<close>) whose transform maps to the plane, and
  let \<open>c\<close> be the clamped image of the mapped point. Then \<open>c\<close> lies in
  [2, 100 - 2] x [2, 80 - 2], however far outside the surface the mapped point lies. If
  the dragged token's id is a non-empty string, the handler marks the interaction as
  moved and submits \<open>c\<close> for batching: \<open>c\<close> becomes the latest sample, a frame
  callback for the token is requested unless one is pending, and when that callback
  runs it commits \<open>c\<close> as the position of the token. If the id is the empty string,
  nothing is submitted. The mapped point (150, 10) gives \<open>c\<close> = (98, 10).
\<close>

theorem tokenDrag_position_clamped:
  assumes "\<not> readOnly props"
    and "pointerId (interactionRef s) = Some (e_pointerId e)"
    and "itype (interactionRef s) = Some I_player"
    and "mapsToPlane svgRef"
    and "c = clampMargin (getSvgPoint svgRef (clientX e) (clientY e))"
    and "s' = handlePointerMove props svgRef e s"
  shows "2 \<le> pt_x c \<and> pt_x c \<le> 100 - 2 \<and> 2 \<le> pt_y c \<and> pt_y c \<le> 80 - 2
     \<and> (\<forall>pid. playerId (interactionRef s) = Some pid \<and> pid \<noteq> [] \<longrightarrow>
          s' = schedulePlayerUpdate (play props) pid c
                 (s\<lparr>interactionRef := (interactionRef s)\<lparr>moved := True\<rparr>\<rparr>)
          \<and> latestPointRef s' = Some c
          \<and> (pendingFrameRef s = None \<longrightarrow>
                pendingFrameRef s' = Some (rafNext s)
                \<and> rafQueue s' = rafQueue s @ [(rafNext s, PlayerFrame pid (play props))])
          \<and> (pendingFrameRef s \<noteq> None \<longrightarrow>
                pendingFrameRef s' = pendingFrameRef s \<and> rafQueue s' = rafQueue s)
          \<and> (\<forall>p. find (\<lambda>q. p_id q = pid) (players (play props)) = Some p \<longrightarrow>
                snd (runCallback (PlayerFrame pid (play props)) s')
                  = [onUpdatePlayer (p\<lparr>p_x := pt_x c, p_y := pt_y c\<rparr>)]))
     \<and> (\<not> truthy (playerId (interactionRef s)) \<longrightarrow>
          s' = s\<lparr>interactionRef := (interactionRef s)\<lparr>moved := True\<rparr>\<rparr>)
     \<and> (getSvgPoint svgRef (clientX e) (clientY e) = \<lparr>pt_x = 150, pt_y = 10\<rparr> \<longrightarrow>
          c = \<lparr>pt_x = 98, pt_y = 10\<rparr>)"
proof -
  let ?s1 = "s\<lparr>interactionRef := (interactionRef s)\<lparr>moved := True\<rparr>\<rparr>"
  have bounds: "2 \<le> pt_x c \<and> pt_x c \<le> 100 - 2 \<and> 2 \<le> pt_y c \<and> pt_y c \<le> 80 - 2"
    unfolding assms(5) by (rule clampMargin_bounds)
  have sched: "s' = schedulePlayerUpdate (play props) pid c ?s1"
    if "playerId (interactionRef s) = Some pid" "pid \<noteq> []" for pid
    unfolding assms(5,6) handlePointerMove_player [OF assms(1-3)] using that by simp
  have latest: "latestPointRef s' = Some c"
    if "playerId (interactionRef s) = Some pid" "pid \<noteq> []" for pid
    unfolding sched [OF that] by (rule latest_schedulePlayerUpdate)
  have first: "pendingFrameRef s' = Some (rafNext s)
      \<and> rafQueue s' = rafQueue s @ [(rafNext s, PlayerFrame pid (play props))]"
    if "playerId (interactionRef s) = Some pid" "pid \<noteq> []" "pendingFrameRef s = None" for pid
    unfolding sched [OF that(1,2)] using that(3) by (simp add: schedule_first)
  have later: "pendingFrameRef s' = pendingFrameRef s \<and> rafQueue s' = rafQueue s"
    if "playerId (interactionRef s) = Some pid" "pid \<noteq> []" "pendingFrameRef s \<noteq> None" for pid
    unfolding sched [OF that(1,2)] using that(3) by (simp add: schedule_pending)
  have commit: "snd (runCallback (PlayerFrame pid (play props)) s')
      = [onUpdatePlayer (p\<lparr>p_x := pt_x c, p_y := pt_y c\<rparr>)]"
    if "playerId (interactionRef s) = Some pid" "pid \<noteq> []"
      "find (\<lambda>q. p_id q = pid) (players (play props)) = Some p" for pid p
    using latest [OF that(1,2)] that(3) by (rule playerFrame_commits)
  have none: "s' = ?s1" if "\<not> truthy (playerId (interactionRef s))"
    unfolding assms(6) handlePointerMove_player [OF assms(1-3)] using that
    by (cases "playerId (interactionRef s)") (simp_all add: Let_def)
  have example: "c = \<lparr>pt_x = 98, pt_y = 10\<rparr>"
    if "getSvgPoint svgRef (clientX e) (clientY e) = \<lparr>pt_x = 150, pt_y = 10\<rparr>"
    unfolding assms(5) that by (simp add: clampMargin_def FIELD_WIDTH_def FIELD_HEIGHT_def)
  show ?thesis
    using bounds sched latest first later commit none example by blast
qed

theorem tokenDrag_position_clamped_witness:
  "run [(editing (floodRight zeroClock) None, mounted,
           PointerDown (pointerAt 50 60)
             (Some (examplePlayer ''p2'' ''C'' 50 60 [\<lparr>pt_x = 50, pt_y = 50\<rparr>, \<lparr>pt_x = 40, pt_y = 45\<rparr>]))
             None),
        (editing (floodRight zeroClock) (Some ''p2''), mounted, PointerMove (pointerAt 150 10)),
        (editing (floodRight zeroClock) (Some ''p2''), mounted, AnimationFrame)]
       initialState
     = (initialState
          \<lparr>isDragging := True,
           dragTrail := [\<lparr>pt_x = 98, pt_y = 10\<rparr>],
           interactionRef :=
             \<lparr>pointerId = Some 1, itype = Some I_player, playerId = Some ''p2'',
              routeIndex = None, startPoint = Some \<lparr>pt_x = 50, pt_y = 60\<rparr>, moved = True\<rparr>,
           latestPointRef := Some \<lparr>pt_x = 98, pt_y = 10\<rparr>,
           rafNext := 2\<rparr>,
        [onSelectPlayer (Some ''p2''),
         onUpdatePlayer
           (examplePlayer ''p2'' ''C'' 98 10 [\<lparr>pt_x = 50, pt_y = 50\<rparr>, \<lparr>pt_x = 40, pt_y = 45\<rparr>])])
   \<and> rafQueue (handlePointerMove (editing (floodRight zeroClock) (Some ''p2'')) mounted
        (pointerAt 150 10)
        (fst (handlePointerDown (editing (floodRight zeroClock) None) mounted (pointerAt 50 60)
               (Some (examplePlayer ''p2'' ''C'' 50 60
                  [\<lparr>pt_x = 50, pt_y = 50\<rparr>, \<lparr>pt_x = 40, pt_y = 45\<rparr>])) None initialState)))
     = [(1, PlayerFrame ''p2'' (floodRight zeroClock))]"
  using tokenDrag_position_clamped [of "editing (floodRight zeroClock) (Some ''p2'')"
      "fst (handlePointerDown (editing (floodRight zeroClock) None) mounted (pointerAt 50 60)
               (Some (examplePlayer ''p2'' ''C'' 50 60
                  [\<lparr>pt_x = 50, pt_y = 50\<rparr>, \<lparr>pt_x = 40, pt_y = 45\<rparr>])) None initialState)"
      "pointerAt 150 10" mounted, OF _ _ _ _ refl refl]
  by (simp add: fixture_defs handler_defs mapsToPlane_def sliceLast_def)

section \<open>Tap to extend\<close>

lemma handlePointerUp_tap:
  assumes "pointerId (interactionRef s) = Some (e_pointerId e)"
    and "itype (interactionRef s) = Some I_field"
    and "\<not> moved (interactionRef s)"
  shows "handlePointerUp props svgRef e s =
     (s\<lparr>interactionRef := idleInteraction\<rparr>,
      if truthy (selectedPlayerId props)
      then (case find (\<lambda>p. Some (p_id p) = selectedPlayerId props) (players (play props)) of
              Some cp \<Rightarrow>
                if role cp = OFFENSE
                then [onUpdatePlayer (cp\<lparr>route := route cp @
                        [clampSurface (getSvgPoint svgRef (clientX e) (clientY e))]\<rparr>)]
                else [onSelectPlayer None]
            | None \<Rightarrow> [onSelectPlayer None])
      else [])"
  using assms by (simp add: handlePointerUp_def Let_def)

lemma clampSurface_inSurface: "inSurface (clampSurface q)"
  by (simp add: inSurface_def clampSurface_def FIELD_WIDTH_def FIELD_HEIGHT_def)

text \<open>
  The release of a \<open>field\<close> interaction that has not moved, case by case, with
  \<open>tapped\<close> the release point clamped to the surface and \<open>effs\<close> the calls of the
  handler. A selected id that is a non-empty string behaves as the claim says: one
  update with the route extended by \<open>tapped\<close> for an OFFENSE token, one call that clears
  the selection for a DEFENSE token or an id that names no token. With no selected id,
  or with the empty string as the selected id, the handler makes no call, whatever the
  tokens of the play are.
\<close>

lemma tap_release_cases:
  assumes "pointerId (interactionRef s) = Some (e_pointerId e)"
    and "itype (interactionRef s) = Some I_field"
    and "\<not> moved (interactionRef s)"
    and "tapped = clampSurface (getSvgPoint svgRef (clientX e) (clientY e))"
    and "effs = snd (handlePointerUp props svgRef e s)"
  shows "(\<forall>sid cp. selectedPlayerId props = Some sid \<and> sid \<noteq> []
            \<and> find (\<lambda>p. p_id p = sid) (players (play props)) = Some cp \<and> role cp = OFFENSE \<longrightarrow>
          effs = [onUpdatePlayer (cp\<lparr>route := route cp @ [tapped]\<rparr>)])
     \<and> (\<forall>sid cp. selectedPlayerId props = Some sid \<and> sid \<noteq> []
            \<and> find (\<lambda>p. p_id p = sid) (players (play props)) = Some cp \<and> role cp = DEFENSE \<longrightarrow>
          effs = [onSelectPlayer None])
     \<and> (\<forall>sid. selectedPlayerId props = Some sid \<and> sid \<noteq> []
            \<and> find (\<lambda>p. p_id p = sid) (players (play props)) = None \<longrightarrow>
          effs = [onSelectPlayer None])
     \<and> (selectedPlayerId props = None \<or> selectedPlayerId props = Some [] \<longrightarrow> effs = [])
     \<and> (mapsToPlane svgRef \<longrightarrow> inSurface tapped)
     \<and> interactionRef (fst (handlePointerUp props svgRef e s)) = idleInteraction"
  unfolding assms(4,5) handlePointerUp_tap [OF assms(1-3)]
  by (auto simp: clampSurface_inSurface)

lemma tap_release_examples:
  "snd (handlePointerUp (editing defensePlay (Some ''p3'')) mounted (pointerAt 30 30)
          (fst (handlePointerDown (editing defensePlay (Some ''p3'')) mounted (pointerAt 30 30)
                  None None initialState)))
     = [onUpdatePlayer (examplePlayer ''p3'' ''WR1'' 85 60
          [\<lparr>pt_x = 85, pt_y = 10\<rparr>, \<lparr>pt_x = 30, pt_y = 30\<rparr>])]
   \<and> snd (handlePointerUp (editing defensePlay (Some ''d1'')) mounted (pointerAt 30 30)
          (fst (handlePointerDown (editing defensePlay (Some ''d1'')) mounted (pointerAt 30 30)
                  None None initialState)))
     = [onSelectPlayer None]"
  by (simp add: fixture_defs handler_defs defender_def defensePlay_def)

text \<open>
  Claim C2, at the input where the code departs from it. The play has one token,
  an OFFENSE token whose id is the empty string. A press on the token selects it: the
  handler calls \<open>onSelectPlayer\<close> with its id, and the comparison
  \<open>selectedPlayerId === player.id\<close> of the surface and of \<open>find\<close> holds for it. With
  that selection, a press and release at (30, 30) without a move in between makes no
  call at all: the route of the selected OFFENSE token is not extended. The release
  handler tests \<open>selectedPlayerId\<close> for truthiness where every other place compares it
  with the token's id.
\<close>

theorem tapToExtend_empty_id:
  "players unnamedPlay = [unnamedToken] \<and> p_id unnamedToken = [] \<and> role unnamedToken = OFFENSE
   \<and> snd (handlePointerDown (editing unnamedPlay None) mounted (pointerAt 20 60)
             (Some unnamedToken) None initialState)
       = [onSelectPlayer (Some [])]
   \<and> find (\<lambda>p. Some (p_id p) = Some []) (players unnamedPlay) = Some unnamedToken
   \<and> handlePointerUp (editing unnamedPlay (Some [])) mounted (pointerAt 30 30)
        (fst (handlePointerDown (editing unnamedPlay (Some [])) mounted (pointerAt 30 30)
                None None initialState))
      = (initialState, [])"
  by (simp add: fixture_defs handler_defs unnamedToken_def unnamedPlay_def)

section \<open>Stale waypoint moves\<close>





section \<open>The read-only surface\<close>

lemma step_readOnly:
  assumes "readOnly props" and "isPointerEvent ev" and "pointerId (interactionRef s) = None"
  shows "step props svgRef ev s = (s, [])"
  using assms
  by (cases ev) (simp_all add: handlePointerDown_def handlePointerMove_def handlePointerUp_def Let_def)

text \<open>
  From a state without a live interaction (the initial state is one), pointer events
  that all arrive with the read-only flag set make no call and leave the state as it
  is: the press handler returns at its test of the flag, so that no interaction is
  created and a release finds no interaction of its pointer.
\<close>

lemma readOnly_no_effects:
  assumes "\<forall>(props, svgRef, ev) \<in> set evs. readOnly props \<and> isPointerEvent ev"
    and "pointerId (interactionRef s) = None"
  shows "run evs s = (s, [])"
  using assms
proof (induction evs)
  case Nil
  then show ?case by simp
next
  case (Cons x evs)
  obtain props svgRef ev where x: "x = (props, svgRef, ev)"
    by (cases x) auto
  have "step props svgRef ev s = (s, [])"
    using Cons.prems x by (intro step_readOnly) auto
  then show ?case
    using Cons x by simp
qed

lemma readOnly_no_effects_example:
  "run [(viewing (floodRight zeroClock) (Some ''p3''), mounted,
           PointerDown (pointerAt 85 60) (Some (examplePlayer ''p3'' ''WR1'' 85 60 [\<lparr>pt_x = 85, pt_y = 10\<rparr>])) None),
        (viewing (floodRight zeroClock) (Some ''p3''), mounted, PointerMove (pointerAt 60 40)),
        (viewing (floodRight zeroClock) (Some ''p3''), mounted, PointerUp (pointerAt 60 40)),
        (viewing (floodRight zeroClock) (Some ''p3''), mounted, PointerDown (pointerAt 30 30) None None),
        (viewing (floodRight zeroClock) (Some ''p3''), mounted, PointerUp (pointerAt 30 30))]
       initialState
     = (initialState, [])"
  by (rule readOnly_no_effects) (simp_all add: viewing_def initialState_def idleInteraction_def)

text \<open>
  Claim C10, at the input where the code departs from it. The surface is editable, the
  token \<open>p3\<close> is selected, and a press on the empty surface at (30, 30) creates a
  \<open>field\<close> interaction. The flag is then set, and the pointer is released at the same
  point. The release arrives with the flag set, and it fires the tap: the handler calls
  \<open>onUpdatePlayer\<close> with the route of \<open>p3\<close> extended by (30, 30). The press and the
  move handler test the flag; the release handler does not.
\<close>

theorem readOnly_release_fires_tap:
  "readOnly (viewing (floodRight zeroClock) (Some ''p3''))
   \<and> isPointerEvent (PointerUp (pointerAt 30 30))
   \<and> handlePointerDown (editing (floodRight zeroClock) (Some ''p3'')) mounted (pointerAt 30 30)
        None None initialState
      = (initialState\<lparr>interactionRef :=
            \<lparr>pointerId = Some 1, itype = Some I_field, playerId = None, routeIndex = None,
             startPoint = Some \<lparr>pt_x = 30, pt_y = 30\<rparr>, moved = False\<rparr>\<rparr>, [])
   \<and> run [(viewing (floodRight zeroClock) (Some ''p3''), mounted, PointerUp (pointerAt 30 30))]
        (initialState\<lparr>interactionRef :=
            \<lparr>pointerId = Some 1, itype = Some I_field, playerId = None, routeIndex = None,
             startPoint = Some \<lparr>pt_x = 30, pt_y = 30\<rparr>, moved = False\<rparr>\<rparr>)
      = (initialState,
         [onUpdatePlayer (examplePlayer ''p3'' ''WR1'' 85 60
            [\<lparr>pt_x = 85, pt_y = 10\<rparr>, \<lparr>pt_x = 30, pt_y = 30\<rparr>])])"
  by (simp add: fixture_defs handler_defs viewing_def)

section \<open>The bounds of every write\<close>

lemma clampMargin_inMargin: "inMargin (clampMargin q)"
  by (simp add: inMargin_def clampMargin_def FIELD_WIDTH_def FIELD_HEIGHT_def)

lemma presetRoute_clampMargin:
  "presetRoute gp player =
     map clampMargin (gp (p_x player) (p_y player)
       (if p_x player < 50 then 1 else - 1) (if p_x player < 50 then - 1 else 1))"
  by (simp add: presetRoute_def clampMargin_def FIELD_WIDTH_def FIELD_HEIGHT_def Let_def)

lemma presetRoute_inMargin: "pt \<in> set (presetRoute gp player) \<Longrightarrow> inMargin pt"
  by (auto simp: presetRoute_def inMargin_def Let_def)

lemma applyRoutePreset_selected:
  assumes "truthy sel" and "find (\<lambda>p. Some (p_id p) = sel) (players cp) = Some player"
  shows "applyRoutePreset (Some cp) sel gp =
     Some (cp\<lparr>players := map (\<lambda>p. if p_id p = p_id player
                                    then player\<lparr>route := presetRoute gp player\<rparr> else p)
                             (players cp)\<rparr>)"
  using assms by (simp add: applyRoutePreset_def handleUpdatePlayer_def)

lemma applyRoutePreset_skipped:
  assumes "cur = None \<or> \<not> truthy sel
     \<or> (\<exists>cp. cur = Some cp \<and> find (\<lambda>p. Some (p_id p) = sel) (players cp) = None)"
  shows "applyRoutePreset cur sel gp = cur"
  using assms by (auto simp: applyRoutePreset_def split: option.splits)

lemma samplesClamped_initial: "samplesClamped initialState"
  by (simp add: samplesClamped_def initialState_def)

lemma samplesClamped_request:
  "samplesClamped s \<Longrightarrow> callbackClamped cb \<Longrightarrow>
     samplesClamped (snd (requestAnimationFrame cb s))"
  by (simp add: samplesClamped_def requestAnimationFrame_def)

lemma samplesClamped_schedule:
  "samplesClamped s \<Longrightarrow> inMargin pt \<Longrightarrow> samplesClamped (schedulePlayerUpdate pl pid pt s)"
  by (simp add: samplesClamped_def schedulePlayerUpdate_def requestAnimationFrame_def Let_def)

lemma samplesClamped_move:
  assumes "samplesClamped s" and "mapsToPlane svgRef"
  shows "samplesClamped (handlePointerMove props svgRef e s)"
  using assms
  by (auto simp: handlePointerMove_def Let_def samplesClamped_def schedulePlayerUpdate_def
      requestAnimationFrame_def clampMargin_inMargin split: option.splits)

lemma samplesClamped_down:
  "samplesClamped s \<Longrightarrow> samplesClamped (fst (handlePointerDown props svgRef e player rh s))"
  by (auto simp: handlePointerDown_def Let_def samplesClamped_def split: option.splits)

lemma samplesClamped_up:
  "samplesClamped s \<Longrightarrow> samplesClamped (fst (handlePointerUp props svgRef e s))"
  by (auto simp: handlePointerUp_def Let_def samplesClamped_def split: option.splits)

lemma samplesClamped_runCallback:
  "samplesClamped s \<Longrightarrow> samplesClamped (fst (runCallback cb s))"
  by (cases cb) (auto simp: Let_def samplesClamped_def split: option.splits)

lemma fst_runCallbacks_Cons:
  "fst (runCallbacks (cb # cbs) s) = fst (runCallbacks cbs (fst (runCallback cb s)))"
  by (cases "runCallback cb s"; cases "runCallbacks cbs (fst (runCallback cb s))") simp

lemma samplesClamped_runCallbacks:
  "samplesClamped s \<Longrightarrow> samplesClamped (fst (runCallbacks cbs s))"
proof (induction cbs arbitrary: s)
  case Nil
  then show ?case by simp
next
  case (Cons cb cbs)
  have "samplesClamped (fst (runCallback cb s))"
    using Cons.prems by (rule samplesClamped_runCallback)
  then have "samplesClamped (fst (runCallbacks cbs (fst (runCallback cb s))))"
    by (rule Cons.IH)
  then show ?case
    by (simp only: fst_runCallbacks_Cons)
qed

lemma samplesClamped_frame:
  assumes "samplesClamped s"
  shows "samplesClamped (fst (animationFrame s))"
proof -
  have "samplesClamped (s\<lparr>rafQueue := []\<rparr>)"
    using assms by (simp add: samplesClamped_def)
  then show ?thesis
    unfolding animationFrame_def by (rule samplesClamped_runCallbacks)
qed

lemma samplesClamped_step:
  "samplesClamped s \<Longrightarrow> mapsToPlane svgRef \<Longrightarrow> samplesClamped (fst (step props svgRef ev s))"
  by (cases ev)
    (simp_all add: samplesClamped_down samplesClamped_move samplesClamped_up samplesClamped_frame)

lemma fst_run_Cons:
  "fst (run ((props, svgRef, ev) # evs) s) = fst (run evs (fst (step props svgRef ev s)))"
  by (cases "step props svgRef ev s"; cases "run evs (fst (step props svgRef ev s))") simp

lemma samplesClamped_run:
  "samplesClamped s \<Longrightarrow> allMapToPlane evs \<Longrightarrow> samplesClamped (fst (run evs s))"
proof (induction evs arbitrary: s)
  case Nil
  then show ?case by simp
next
  case (Cons x evs)
  obtain props svgRef ev where x: "x = (props, svgRef, ev)"
    by (cases x) auto
  have maps: "mapsToPlane svgRef" and rest: "allMapToPlane evs"
    using Cons.prems(2) x by (simp_all add: allMapToPlane_def)
  have "samplesClamped (fst (step props svgRef ev s))"
    using Cons.prems(1) maps by (rule samplesClamped_step)
  then have "samplesClamped (fst (run evs (fst (step props svgRef ev s))))"
    using rest by (rule Cons.IH)
  then show ?case
    by (simp only: x fst_run_Cons)
qed

lemma playerFrame_write:
  assumes "samplesClamped s" and "latestPointRef t = latestPointRef s"
  shows "snd (runCallback (PlayerFrame pid pl) t) = []
     \<or> (\<exists>p pt. p \<in> set (players pl) \<and> inMargin pt
          \<and> snd (runCallback (PlayerFrame pid pl) t)
              = [onUpdatePlayer (p\<lparr>p_x := pt_x pt, p_y := pt_y pt\<rparr>)])"
  using assms
  by (auto simp: Let_def samplesClamped_def split: option.splits dest: find_Some_mem)

lemma routeFrame_write:
  "snd (runCallback (RouteFrame pid ri c pl) t) = []
     \<or> (\<exists>p. p \<in> set (players pl)
          \<and> snd (runCallback (RouteFrame pid ri c pl) t)
              = [onUpdatePlayer (p\<lparr>route := (route p)[ri := c]\<rparr>)])"
  by (auto simp: Let_def replacePoint_update split: option.splits dest: find_Some_mem)

lemma queued_route_clamped:
  "samplesClamped s \<Longrightarrow> (h, RouteFrame pid ri c pl) \<in> set (rafQueue s) \<Longrightarrow> inMargin c"
  by (force simp: samplesClamped_def list_all_iff)

lemma tap_write:
  assumes "mapsToPlane svgRef"
  shows "snd (handlePointerUp props svgRef e s) = []
   \<or> snd (handlePointerUp props svgRef e s) = [onSelectPlayer None]
   \<or> (\<exists>cp pt. cp \<in> set (players (play props)) \<and> inSurface pt
         \<and> snd (handlePointerUp props svgRef e s)
             = [onUpdatePlayer (cp\<lparr>route := route cp @ [pt]\<rparr>)])"
proof (cases "pointerId (interactionRef s) = Some (e_pointerId e)
    \<and> itype (interactionRef s) = Some I_field \<and> \<not> moved (interactionRef s)
    \<and> truthy (selectedPlayerId props)")
  case False
  then have "snd (handlePointerUp props svgRef e s) = []"
    by (auto simp: handlePointerUp_def Let_def)
  then show ?thesis by simp
next
  case True
  let ?sel = "find (\<lambda>p. Some (p_id p) = selectedPlayerId props) (players (play props))"
  let ?pt = "clampSurface (getSvgPoint svgRef (clientX e) (clientY e))"
  show ?thesis
  proof (cases ?sel)
    case None
    then have "snd (handlePointerUp props svgRef e s) = [onSelectPlayer None]"
      using True by (simp add: handlePointerUp_def Let_def)
    then show ?thesis by simp
  next
    case (Some cp)
    then have mem: "cp \<in> set (players (play props))"
      by (auto dest: find_Some_mem)
    show ?thesis
    proof (cases "role cp")
      case OFFENSE
      then have "snd (handlePointerUp props svgRef e s)
          = [onUpdatePlayer (cp\<lparr>route := route cp @ [?pt]\<rparr>)]"
        using True Some by (simp add: handlePointerUp_def Let_def)
      then show ?thesis
        using mem clampSurface_inSurface [of "getSvgPoint svgRef (clientX e) (clientY e)"]
        by blast
    next
      case DEFENSE
      then have "snd (handlePointerUp props svgRef e s) = [onSelectPlayer None]"
        using True Some by (simp add: handlePointerUp_def Let_def)
      then show ?thesis by simp
    qed
  qed
qed

text \<open>
  Claim C1, as the code has it. Let \<open>s\<close> be any state that the component reaches from
  its initial state, by any events under any props whose transforms map to the plane.
  Then:
  \<^item> a position callback run with the latest sample of \<open>s\<close> makes no call, or one update
    of a token \<open>p\<close> of its play whose position is a point of [2, 98] x [2, 78];
  \<^item> every route callback requested in \<open>s\<close> holds a point of [2, 98] x [2, 78], and
    makes no call, or one update of a token of its play whose route has that point at
    the dragged index;
  \<^item> a release whose transform maps to the plane makes no call, or clears the
    selection, or makes one update of a token of the play whose route is extended by a
    point of [0, 100] x [0, 80];
  \<^item> a press makes no update;
  \<^item> \<open>applyRoutePreset\<close>, when a token is selected, replaces the tokens with the id of
    the selected token by that token with the route of the template, whose points are
    the points of the template clamped to [2, 98] x [2, 78]; when no play is open, when
    the selected id is empty or when it names no token, it leaves the play as it is.
  The points are clamped before they are stored or passed on.
\<close>

theorem writes_within_bounds:
  assumes "s = fst (run evs initialState)" and "allMapToPlane evs"
  shows "(\<forall>pid pl t. latestPointRef t = latestPointRef s \<longrightarrow>
            snd (runCallback (PlayerFrame pid pl) t) = []
            \<or> (\<exists>p pt. p \<in> set (players pl) \<and> inMargin pt
                 \<and> snd (runCallback (PlayerFrame pid pl) t)
                     = [onUpdatePlayer (p\<lparr>p_x := pt_x pt, p_y := pt_y pt\<rparr>)]))
     \<and> (\<forall>h pid ri c pl t. (h, RouteFrame pid ri c pl) \<in> set (rafQueue s) \<longrightarrow>
            inMargin c
            \<and> (snd (runCallback (RouteFrame pid ri c pl) t) = []
                 \<or> (\<exists>p. p \<in> set (players pl)
                      \<and> snd (runCallback (RouteFrame pid ri c pl) t)
                          = [onUpdatePlayer (p\<lparr>route := (route p)[ri := c]\<rparr>)])))
     \<and> (\<forall>props svgRef e. mapsToPlane svgRef \<longrightarrow>
            snd (handlePointerUp props svgRef e s) = []
            \<or> snd (handlePointerUp props svgRef e s) = [onSelectPlayer None]
            \<or> (\<exists>cp pt. cp \<in> set (players (play props)) \<and> inSurface pt
                  \<and> snd (handlePointerUp props svgRef e s)
                      = [onUpdatePlayer (cp\<lparr>route := route cp @ [pt]\<rparr>)]))
     \<and> (\<forall>props svgRef e player rh. mapsToPlane svgRef \<longrightarrow>
            snd (handlePointerDown props svgRef e player rh s) = []
            \<or> (\<exists>i. snd (handlePointerDown props svgRef e player rh s) = [onSelectPlayer i]))
     \<and> (\<forall>cp sel templateGetPoints player.
            truthy sel \<and> find (\<lambda>p. Some (p_id p) = sel) (players cp) = Some player \<longrightarrow>
            applyRoutePreset (Some cp) sel templateGetPoints =
              Some (cp\<lparr>players :=
                map (\<lambda>p. if p_id p = p_id player
                          then player\<lparr>route := presetRoute templateGetPoints player\<rparr> else p)
                    (players cp)\<rparr>)
            \<and> presetRoute templateGetPoints player =
                map clampMargin (templateGetPoints (p_x player) (p_y player)
                  (if p_x player < 50 then 1 else - 1) (if p_x player < 50 then - 1 else 1))
            \<and> (\<forall>pt \<in> set (presetRoute templateGetPoints player). inMargin pt))
     \<and> (\<forall>cur sel templateGetPoints.
            cur = None \<or> \<not> truthy sel
            \<or> (\<exists>cp. cur = Some cp \<and> find (\<lambda>p. Some (p_id p) = sel) (players cp) = None) \<longrightarrow>
            applyRoutePreset cur sel templateGetPoints = cur)"
proof -
  have inv: "samplesClamped s"
    unfolding assms(1) using samplesClamped_initial assms(2) by (rule samplesClamped_run)
  have position: "snd (runCallback (PlayerFrame pid pl) t) = []
        \<or> (\<exists>p pt. p \<in> set (players pl) \<and> inMargin pt
             \<and> snd (runCallback (PlayerFrame pid pl) t)
                 = [onUpdatePlayer (p\<lparr>p_x := pt_x pt, p_y := pt_y pt\<rparr>)])"
    if "latestPointRef t = latestPointRef s" for pid pl and t :: FieldState
    using inv that by (rule playerFrame_write)
  have queued: "inMargin c"
    if "(h, RouteFrame pid ri c pl) \<in> set (rafQueue s)" for h pid ri c pl
    using inv that by (rule queued_route_clamped)
  have waypoint: "snd (runCallback (RouteFrame pid ri c pl) t) = []
        \<or> (\<exists>p. p \<in> set (players pl)
             \<and> snd (runCallback (RouteFrame pid ri c pl) t)
                 = [onUpdatePlayer (p\<lparr>route := (route p)[ri := c]\<rparr>)])"
    for pid ri c pl and t :: FieldState
    by (rule routeFrame_write)
  have tap: "snd (handlePointerUp props svgRef e s) = []
        \<or> snd (handlePointerUp props svgRef e s) = [onSelectPlayer None]
        \<or> (\<exists>cp pt. cp \<in> set (players (play props)) \<and> inSurface pt
              \<and> snd (handlePointerUp props svgRef e s)
                  = [onUpdatePlayer (cp\<lparr>route := route cp @ [pt]\<rparr>)])"
    if "mapsToPlane svgRef" for props svgRef e
    using that by (rule tap_write)
  have down: "snd (handlePointerDown props svgRef e player rh s) = []
        \<or> (\<exists>i. snd (handlePointerDown props svgRef e player rh s) = [onSelectPlayer i])"
    for props svgRef e player rh
    by (auto simp: handlePointerDown_def Let_def split: option.splits)
  have template: "applyRoutePreset (Some cp) sel gp =
          Some (cp\<lparr>players :=
            map (\<lambda>p. if p_id p = p_id player
                      then player\<lparr>route := presetRoute gp player\<rparr> else p)
                (players cp)\<rparr>)
        \<and> presetRoute gp player =
            map clampMargin (gp (p_x player) (p_y player)
              (if p_x player < 50 then 1 else - 1) (if p_x player < 50 then - 1 else 1))
        \<and> (\<forall>pt \<in> set (presetRoute gp player). inMargin pt)"
    if "truthy sel \<and> find (\<lambda>p. Some (p_id p) = sel) (players cp) = Some player"
    for cp sel gp player
    using that applyRoutePreset_selected [of sel cp player gp]
      presetRoute_clampMargin [of gp player] presetRoute_inMargin [of _ gp player]
    by blast
  have skipped: "applyRoutePreset cur sel gp = cur"
    if "cur = None \<or> \<not> truthy sel
      \<or> (\<exists>cp. cur = Some cp \<and> find (\<lambda>p. Some (p_id p) = sel) (players cp) = None)"
    for cur sel gp
    using that by (rule applyRoutePreset_skipped)
  show ?thesis
  proof (intro conjI)
    show "\<forall>pid pl t. latestPointRef t = latestPointRef s \<longrightarrow>
            snd (runCallback (PlayerFrame pid pl) t) = []
            \<or> (\<exists>p pt. p \<in> set (players pl) \<and> inMargin pt
                 \<and> snd (runCallback (PlayerFrame pid pl) t)
                     = [onUpdatePlayer (p\<lparr>p_x := pt_x pt, p_y := pt_y pt\<rparr>)])"
      using position by blast
    show "\<forall>h pid ri c pl t. (h, RouteFrame pid ri c pl) \<in> set (rafQueue s) \<longrightarrow>
            inMargin c
            \<and> (snd (runCallback (RouteFrame pid ri c pl) t) = []
                 \<or> (\<exists>p. p \<in> set (players pl)
                      \<and> snd (runCallback (RouteFrame pid ri c pl) t)
                          = [onUpdatePlayer (p\<lparr>route := (route p)[ri := c]\<rparr>)]))"
      using queued waypoint by blast
    show "\<forall>props svgRef e. mapsToPlane svgRef \<longrightarrow>
            snd (handlePointerUp props svgRef e s) = []
            \<or> snd (handlePointerUp props svgRef e s) = [onSelectPlayer None]
            \<or> (\<exists>cp pt. cp \<in> set (players (play props)) \<and> inSurface pt
                  \<and> snd (handlePointerUp props svgRef e s)
                      = [onUpdatePlayer (cp\<lparr>route := route cp @ [pt]\<rparr>)])"
      using tap by blast
    show "\<forall>props svgRef e player rh. mapsToPlane svgRef \<longrightarrow>
            snd (handlePointerDown props svgRef e player rh s) = []
            \<or> (\<exists>i. snd (handlePointerDown props svgRef e player rh s) = [onSelectPlayer i])"
      using down by blast
    show "\<forall>cp sel templateGetPoints player.
            truthy sel \<and> find (\<lambda>p. Some (p_id p) = sel) (players cp) = Some player \<longrightarrow>
            applyRoutePreset (Some cp) sel templateGetPoints =
              Some (cp\<lparr>players :=
                map (\<lambda>p. if p_id p = p_id player
                          then player\<lparr>route := presetRoute templateGetPoints player\<rparr> else p)
                    (players cp)\<rparr>)
            \<and> presetRoute templateGetPoints player =
                map clampMargin (templateGetPoints (p_x player) (p_y player)
                  (if p_x player < 50 then 1 else - 1) (if p_x player < 50 then - 1 else 1))
            \<and> (\<forall>pt \<in> set (presetRoute templateGetPoints player). inMargin pt)"
      using template by (intro allI impI)
    show "\<forall>cur sel templateGetPoints.
            cur = None \<or> \<not> truthy sel
            \<or> (\<exists>cp. cur = Some cp \<and> find (\<lambda>p. Some (p_id p) = sel) (players cp) = None) \<longrightarrow>
            applyRoutePreset cur sel templateGetPoints = cur"
      using skipped by (intro allI impI)
  qed
qed

theorem writes_within_bounds_witness:
  "allMapToPlane
       [(editing (floodRight zeroClock) None, mounted,
           PointerDown (pointerAt 85 10) None (Some \<lparr>h_playerId = ''p3'', pointIndex = 0\<rparr>)),
        (editing (floodRight zeroClock) None, mounted, PointerMove (pointerAt 150 (- 30)))]
   \<and> rafQueue (fst (run
       [(editing (floodRight zeroClock) None, mounted,
           PointerDown (pointerAt 85 10) None (Some \<lparr>h_playerId = ''p3'', pointIndex = 0\<rparr>)),
        (editing (floodRight zeroClock) None, mounted, PointerMove (pointerAt 150 (- 30)))]
       initialState))
     = [(1, RouteFrame ''p3'' 0 \<lparr>pt_x = 98, pt_y = 2\<rparr> (floodRight zeroClock))]
   \<and> inMargin \<lparr>pt_x = 98, pt_y = 2\<rparr>
   \<and> map route (players (the (applyRoutePreset (Some (floodRight zeroClock)) (Some ''p3'')
        (getPoints R_corner))))
       = [[], [\<lparr>pt_x = 50, pt_y = 50\<rparr>, \<lparr>pt_x = 40, pt_y = 45\<rparr>],
          [\<lparr>pt_x = 85, pt_y = 45\<rparr>, \<lparr>pt_x = 98, pt_y = 20\<rparr>],
          [\<lparr>pt_x = 75, pt_y = 40\<rparr>, \<lparr>pt_x = 90, pt_y = 40\<rparr>], [\<lparr>pt_x = 90, pt_y = 70\<rparr>]]"
proof -
  let ?evs = "[(editing (floodRight zeroClock) None, mounted,
           PointerDown (pointerAt 85 10) None (Some \<lparr>h_playerId = ''p3'', pointIndex = 0\<rparr>)),
        (editing (floodRight zeroClock) None, mounted, PointerMove (pointerAt 150 (- 30)))]"
  have maps: "allMapToPlane ?evs"
    by (simp add: allMapToPlane_def mapsToPlane_def mounted_def identityCTM_def)
  note bounds = writes_within_bounds [OF refl maps]
  have queue: "rafQueue (fst (run ?evs initialState))
      = [(1, RouteFrame ''p3'' 0 \<lparr>pt_x = 98, pt_y = 2\<rparr> (floodRight zeroClock))]"
    by (simp add: fixture_defs handler_defs)
  have "inMargin \<lparr>pt_x = 98, pt_y = 2\<rparr>"
    using bounds [THEN conjunct2, THEN conjunct1, rule_format,
        of 1 "''p3''" 0 "\<lparr>pt_x = 98, pt_y = 2\<rparr>" "floodRight zeroClock" initialState]
      queue by simp
  moreover have "applyRoutePreset (Some (floodRight zeroClock)) (Some ''p3'') (getPoints R_corner)
      = Some ((floodRight zeroClock)\<lparr>players :=
          map (\<lambda>p. if p_id p = ''p3''
                    then (examplePlayer ''p3'' ''WR1'' 85 60 [\<lparr>pt_x = 85, pt_y = 10\<rparr>])
                           \<lparr>route := presetRoute (getPoints R_corner)
                              (examplePlayer ''p3'' ''WR1'' 85 60 [\<lparr>pt_x = 85, pt_y = 10\<rparr>])\<rparr>
                    else p)
              (players (floodRight zeroClock))\<rparr>)"
    using bounds [THEN conjunct2, THEN conjunct2, THEN conjunct2, THEN conjunct2, THEN conjunct1,
        rule_format, of "Some ''p3''" "floodRight zeroClock"
          "examplePlayer ''p3'' ''WR1'' 85 60 [\<lparr>pt_x = 85, pt_y = 10\<rparr>]" "getPoints R_corner",
        THEN conjunct1]
    by (simp add: fixture_defs)
  ultimately show ?thesis
    using maps queue by (simp add: fixture_defs presetRoute_def)
qed

text \<open>
  The claim as stated fails for the tap: a tap on the point (99, 1) of the surface
  appends that point, which lies outside [2, 98] x [2, 78].
\<close>

theorem tap_margin_counterexample:
  "snd (run [(editing (floodRight zeroClock) (Some ''p3''), mounted,
                PointerDown (pointerAt 99 1) None None),
             (editing (floodRight zeroClock) (Some ''p3''), mounted, PointerUp (pointerAt 99 1))]
            initialState)
     = [onUpdatePlayer (examplePlayer ''p3'' ''WR1'' 85 60
          [\<lparr>pt_x = 85, pt_y = 10\<rparr>, \<lparr>pt_x = 99, pt_y = 1\<rparr>])]
   \<and> \<not> inMargin \<lparr>pt_x = 99, pt_y = 1\<rparr>"
  by (simp add: fixture_defs handler_defs inMargin_def)

section \<open>Reading the play list\<close>

lemma getPlays_denied:
  "accessDenied ls \<Longrightarrow> getPlays parse stringify clock ls = Inl SecurityError"
  by (simp add: getPlays_def getItem_def)

lemma getPlays_seed:
  assumes "\<not> accessDenied ls" and "items ls STORAGE_KEY = None \<or> items ls STORAGE_KEY = Some []"
  shows "getPlays parse stringify clock ls =
     (if writeRejected ls STORAGE_KEY (stringify (EXAMPLE_PLAYS clock))
      then Inl QuotaExceededError
      else Inr (PlayList (EXAMPLE_PLAYS clock),
                ls\<lparr>items := (items ls)(STORAGE_KEY \<mapsto> stringify (EXAMPLE_PLAYS clock))\<rparr>))"
  using assms by (auto simp: getPlays_def getItem_def setItem_def Let_def)

lemma getPlays_text:
  assumes "\<not> accessDenied ls" and "items ls STORAGE_KEY = Some text" and "text \<noteq> []"
  shows "getPlays parse stringify clock ls =
     (case parse text of
        None \<Rightarrow> Inr (PlayList [], ls)
      | Some val \<Rightarrow> Inr (Parsed val, ls))"
  using assms by (simp add: getPlays_def getItem_def Let_def split: option.splits)

text \<open>
  Claim C8, as the code has it. \<open>getPlays\<close> never propagates an error of the parser,
  but an exception of the storage leaves it:
  \<^item> if the page is denied access to the storage, the \<open>SecurityError\<close> of \<open>getItem\<close>
    propagates;
  \<^item> if the key is absent or holds the empty string, the examples are stored under the
    key and returned, unless the browser rejects the write: then the
    \<open>QuotaExceededError\<close> of \<open>setItem\<close> propagates;
  \<^item> if the key holds a non-empty text that does not parse, the empty list is returned
    and the storage is left as it is;
  \<^item> if the text parses, the parsed value is returned as it is, and the storage is left
    as it is.
\<close>

theorem getPlays_fallback:
  "(accessDenied ls \<longrightarrow> getPlays parse stringify clock ls = Inl SecurityError)
   \<and> (\<not> accessDenied ls \<and> (items ls STORAGE_KEY = None \<or> items ls STORAGE_KEY = Some []) \<longrightarrow>
        getPlays parse stringify clock ls =
          (if writeRejected ls STORAGE_KEY (stringify (EXAMPLE_PLAYS clock))
           then Inl QuotaExceededError
           else Inr (PlayList (EXAMPLE_PLAYS clock),
                     ls\<lparr>items := (items ls)(STORAGE_KEY \<mapsto> stringify (EXAMPLE_PLAYS clock))\<rparr>)))
   \<and> (\<forall>text. \<not> accessDenied ls \<and> items ls STORAGE_KEY = Some text \<and> text \<noteq> []
          \<and> parse text = None \<longrightarrow>
        getPlays parse stringify clock ls = Inr (PlayList [], ls))
   \<and> (\<forall>text val. \<not> accessDenied ls \<and> items ls STORAGE_KEY = Some text \<and> text \<noteq> []
          \<and> parse text = Some val \<longrightarrow>
        getPlays parse stringify clock ls = Inr (Parsed val, ls))"
proof -
  have denied: "getPlays parse stringify clock ls = Inl SecurityError" if "accessDenied ls"
    using that by (rule getPlays_denied)
  have seed: "getPlays parse stringify clock ls =
      (if writeRejected ls STORAGE_KEY (stringify (EXAMPLE_PLAYS clock))
       then Inl QuotaExceededError
       else Inr (PlayList (EXAMPLE_PLAYS clock),
                 ls\<lparr>items := (items ls)(STORAGE_KEY \<mapsto> stringify (EXAMPLE_PLAYS clock))\<rparr>))"
    if "\<not> accessDenied ls" "items ls STORAGE_KEY = None \<or> items ls STORAGE_KEY = Some []"
    using that by (rule getPlays_seed)
  have malformed: "getPlays parse stringify clock ls = Inr (PlayList [], ls)"
    if "\<not> accessDenied ls" "items ls STORAGE_KEY = Some stored" "stored \<noteq> []"
      "parse stored = None"
    for stored
    using getPlays_text [OF that(1-3), of parse stringify clock] that(4) by simp
  have parsed: "getPlays parse stringify clock ls = Inr (Parsed val, ls)"
    if "\<not> accessDenied ls" "items ls STORAGE_KEY = Some stored" "stored \<noteq> []"
      "parse stored = Some val"
    for stored val
    using getPlays_text [OF that(1-3), of parse stringify clock] that(4) by simp
  show ?thesis
    using denied seed malformed parsed by blast
qed

theorem getPlays_fallback_witness:
  "getPlays rejectAll listIds zeroClock emptyStorage
     = Inr (PlayList (EXAMPLE_PLAYS zeroClock), holding ''example-1example-2'')
   \<and> getPlays rejectAll listIds zeroClock (holding ''[{'') = Inr (PlayList [], holding ''[{'')
   \<and> getPlays parseNumber listIds zeroClock (holding ''42'') = Inr (Parsed 42, holding ''42'')
   \<and> getPlays parseNumber listIds zeroClock blockedStorage = Inl SecurityError"
  using getPlays_fallback [of emptyStorage rejectAll listIds zeroClock]
    getPlays_fallback [of "holding ''[{''" rejectAll listIds zeroClock]
    getPlays_fallback [of "holding ''42''" parseNumber listIds zeroClock]
    getPlays_fallback [of blockedStorage parseNumber listIds zeroClock]
  by (simp add: rejectAll_def parseNumber_def listIds_def EXAMPLE_PLAYS_def floodRight_def
      mesh_def emptyStorage_def holding_def blockedStorage_def STORAGE_KEY_def)

text \<open>
  The claim as stated fails twice. The empty string is stored data that is not JSON,
  and for it the examples are returned, not the empty list. And an error is propagated
  when the storage rejects the write of the examples or denies access.
\<close>

theorem getPlays_counterexample:
  "rejectAll [] = None
   \<and> getPlays rejectAll listIds zeroClock (holding [])
       = Inr (PlayList (EXAMPLE_PLAYS zeroClock), holding ''example-1example-2'')
   \<and> EXAMPLE_PLAYS zeroClock \<noteq> []
   \<and> getPlays rejectAll listIds zeroClock fullStorage = Inl QuotaExceededError
   \<and> getPlays rejectAll listIds zeroClock blockedStorage = Inl SecurityError"
  by (simp add: getPlays_def getItem_def setItem_def rejectAll_def listIds_def EXAMPLE_PLAYS_def
      floodRight_def mesh_def emptyStorage_def holding_def fullStorage_def blockedStorage_def
      STORAGE_KEY_def)

end
